theory Spec2Isabelle
  imports Main "HOL-Library.List_Lexorder" "HOL-Library.Char_ord" "HOL-Library.Product_Lexorder"
begin

section \<open>Python values\<close>

text \<open>
  The worker handles what \<^verbatim>\<open>response.json()\<close> returns: nested dicts, lists, strings,
  numbers, booleans and \<^verbatim>\<open>None\<close>. A dict is an association list whose keys are
  distinct; a float is never computed with here, only passed on or printed, so it is
  carried as its \<^verbatim>\<open>repr\<close> text. A string is the list of its characters, each a
  code point below 256; text with other characters is not represented. An integer is one
  the decoder lets through, of at most 4300 decimal digits.
\<close>

datatype json =
    JNull
  | JBool bool
  | JInt int
  | JFloat string
  | JStr string
  | JList "json list"
  | JObj "(string \<times> json) list"

type_synonym pydict = "(string \<times> json) list"

text \<open>The exceptions the worker, the database driver and the storage client raise.\<close>

datatype error =
    AttributeError
  | TypeError
  | KeyError
  | IndexError
  | ValueError
  | HTTPError
  | DataError
  | PostgresError
  | ClientError

text \<open>\<^verbatim>\<open>d.get(k)\<close> and \<^verbatim>\<open>d.get(k, default)\<close> on a dict.\<close>

definition dict_get :: "pydict \<Rightarrow> string \<Rightarrow> json" where
  "dict_get d k = (case map_of d k of None \<Rightarrow> JNull | Some v \<Rightarrow> v)"

definition dict_get_default :: "pydict \<Rightarrow> string \<Rightarrow> json \<Rightarrow> json" where
  "dict_get_default d k dflt = (case map_of d k of None \<Rightarrow> dflt | Some v \<Rightarrow> v)"

text \<open>
  \<^verbatim>\<open>x.get(k)\<close> and \<^verbatim>\<open>x.get(k, default)\<close> on any value: only a dict has the
  method, every other value raises \<^verbatim>\<open>AttributeError\<close>.
\<close>

fun py_get :: "json \<Rightarrow> string \<Rightarrow> error + json" where
  "py_get (JObj d) k = Inr (dict_get d k)"
| "py_get _ k = Inl AttributeError"

fun py_get_default :: "json \<Rightarrow> string \<Rightarrow> json \<Rightarrow> error + json" where
  "py_get_default (JObj d) k dflt = Inr (dict_get_default d k dflt)"
| "py_get_default _ k dflt = Inl AttributeError"

text \<open>Sequencing of calls that may raise: the first exception ends the computation.\<close>

definition bind_err :: "error + 'a \<Rightarrow> ('a \<Rightarrow> error + 'b) \<Rightarrow> error + 'b" where
  "bind_err m f = (case m of Inl e \<Rightarrow> Inl e | Inr x \<Rightarrow> f x)"

text \<open>Truthiness, as \<^verbatim>\<open>if not x\<close> tests it.\<close>

fun py_truthy :: "json \<Rightarrow> bool" where
  "py_truthy JNull = False"
| "py_truthy (JBool b) = b"
| "py_truthy (JInt n) = (n \<noteq> 0)"
| "py_truthy (JFloat r) = (r \<noteq> ''0.0'' \<and> r \<noteq> ''-0.0'')"
| "py_truthy (JStr s) = (s \<noteq> [])"
| "py_truthy (JList xs) = (xs \<noteq> [])"
| "py_truthy (JObj d) = (d \<noteq> [])"

text \<open>\<^verbatim>\<open>len(x)\<close>, \<^verbatim>\<open>x[i]\<close> for a non-negative index, and \<^verbatim>\<open>for y in x\<close>.\<close>

fun py_len :: "json \<Rightarrow> error + nat" where
  "py_len (JList xs) = Inr (length xs)"
| "py_len (JStr s) = Inr (length s)"
| "py_len (JObj d) = Inr (length d)"
| "py_len _ = Inl TypeError"

fun py_index :: "json \<Rightarrow> nat \<Rightarrow> error + json" where
  "py_index (JList xs) i = (if i < length xs then Inr (xs ! i) else Inl IndexError)"
| "py_index (JStr s) i = (if i < length s then Inr (JStr [s ! i]) else Inl IndexError)"
| "py_index (JObj d) i = Inl KeyError"
| "py_index _ i = Inl TypeError"

fun py_iter :: "json \<Rightarrow> error + json list" where
  "py_iter (JList xs) = Inr xs"
| "py_iter (JStr s) = Inr (map (\<lambda>c. JStr [c]) s)"
| "py_iter (JObj d) = Inr (map (\<lambda>kv. JStr (fst kv)) d)"
| "py_iter _ = Inl TypeError"

subsection \<open>\<^verbatim>\<open>int(s)\<close> on a string\<close>

text \<open>
  \<^verbatim>\<open>int\<close> strips surrounding whitespace, takes one optional sign, and then wants
  decimal digits, where single underscores may stand between two digits; more than
  \<^verbatim>\<open>sys.int_info.default_max_str_digits\<close> digits are refused. Anything else is a
  \<^verbatim>\<open>ValueError\<close>, here \<open>None\<close>. The whitespace it strips is the space, the five
  characters \<^verbatim>\<open>\t \n \v \f \r\<close>, and of the characters above ASCII the next-line
  character and the no-break space; the separators \<^verbatim>\<open>\x1c\<close> to \<^verbatim>\<open>\x1f\<close> are
  not stripped.
\<close>

definition is_space :: "char \<Rightarrow> bool" where
  "is_space c = (c \<in> set [CHR '' '', CHR 0x09, CHR 0x0A, CHR 0x0B, CHR 0x0C, CHR 0x0D,
                             CHR 0x85, CHR 0xA0])"

definition max_str_digits :: nat where
  "max_str_digits = 4300"

definition is_digit :: "char \<Rightarrow> bool" where
  "is_digit c = (c \<in> set ''0123456789'')"

definition digit_val :: "char \<Rightarrow> int" where
  "digit_val c = int (of_char c) - 48"

definition strip :: "string \<Rightarrow> string" where
  "strip s = rev (dropWhile is_space (rev (dropWhile is_space s)))"

fun digits_ok :: "string \<Rightarrow> bool" where
  "digits_ok [] = False"
| "digits_ok [c] = is_digit c"
| "digits_ok (c # d # r) =
     (if is_digit c
      then (if d = CHR ''_'' then r \<noteq> [] \<and> digits_ok r else digits_ok (d # r))
      else False)"

definition digits_value :: "string \<Rightarrow> int" where
  "digits_value s = foldl (\<lambda>acc c. 10 * acc + digit_val c) 0 (filter is_digit s)"

definition py_int :: "string \<Rightarrow> int option" where
  "py_int s =
     (let t = strip s;
          sgn_rest = (case t of
                        [] \<Rightarrow> (1, [])
                      | c # r \<Rightarrow> if c = CHR ''+'' then (1, r)
                                 else if c = CHR ''-'' then (-1, r)
                                 else (1, t))
      in if digits_ok (snd sgn_rest) \<and>
            length (filter is_digit (snd sgn_rest)) \<le> max_str_digits
         then Some (fst sgn_rest * digits_value (snd sgn_rest))
         else None)"


subsection \<open>\<^verbatim>\<open>str(x)\<close>\<close>

text \<open>
  \<^verbatim>\<open>str\<close> of a string is the string, of \<^verbatim>\<open>None\<close> the text \<^verbatim>\<open>None\<close>, of an
  integer its decimal digits; a list or dict prints the \<^verbatim>\<open>repr\<close> of its parts, where
  a string stands in quotes with its control characters, the characters from
  \<^verbatim>\<open>\x7f\<close> to \<^verbatim>\<open>\xa0\<close> and the soft hyphen escaped.
\<close>

definition digit_char :: "nat \<Rightarrow> char" where
  "digit_char n = ''0123456789'' ! n"

fun dec_digits :: "nat \<Rightarrow> string" where
  "dec_digits n =
     (if n < 10 then [digit_char n] else dec_digits (n div 10) @ [digit_char (n mod 10)])"

declare dec_digits.simps [simp del]

definition str_int :: "int \<Rightarrow> string" where
  "str_int i = (if i < 0 then CHR ''-'' # dec_digits (nat (- i)) else dec_digits (nat i))"

definition hex_digit :: "nat \<Rightarrow> char" where
  "hex_digit n = ''0123456789abcdef'' ! n"

definition repr_char :: "char \<Rightarrow> char \<Rightarrow> string" where
  "repr_char q c =
     (if c = CHR 0x5C then [CHR 0x5C, CHR 0x5C]
      else if c = q then [CHR 0x5C, q]
      else if c = CHR 0x0A then [CHR 0x5C, CHR ''n'']
      else if c = CHR 0x0D then [CHR 0x5C, CHR ''r'']
      else if c = CHR 0x09 then [CHR 0x5C, CHR ''t'']
      else if (of_char c :: nat) < 32 \<or>
              (127 \<le> (of_char c :: nat) \<and> (of_char c :: nat) \<le> 160) \<or>
              (of_char c :: nat) = 173
      then [CHR 0x5C, CHR ''x'', hex_digit (of_char c div 16), hex_digit (of_char c mod 16)]
      else [c])"

definition repr_str :: "string \<Rightarrow> string" where
  "repr_str s =
     (let q = (if CHR 0x27 \<in> set s \<and> CHR 0x22 \<notin> set s then CHR 0x22 else CHR 0x27)
      in q # concat (map (repr_char q) s) @ [q])"

fun join :: "string \<Rightarrow> string list \<Rightarrow> string" where
  "join sep [] = []"
| "join sep [x] = x"
| "join sep (x # y # r) = x @ sep @ join sep (y # r)"

fun py_repr :: "json \<Rightarrow> string" where
  "py_repr JNull = ''None''"
| "py_repr (JBool b) = (if b then ''True'' else ''False'')"
| "py_repr (JInt i) = str_int i"
| "py_repr (JFloat r) = r"
| "py_repr (JStr s) = repr_str s"
| "py_repr (JList xs) = ''['' @ join '', '' (map py_repr xs) @ '']''"
| "py_repr (JObj d) =
     ''{'' @ join '', '' (map (\<lambda>kv. repr_str (fst kv) @ '': '' @ py_repr (snd kv)) d) @ ''}''"

fun py_str :: "json \<Rightarrow> string" where
  "py_str (JStr s) = s"
| "py_str v = py_repr v"

section \<open>The stat extractor\<close>

text \<open>
  \<^verbatim>\<open>get_stat\<close>, the function nested in \<^verbatim>\<open>SyncWorker._parse_fixture_stats\<close>, over
  the already iterated list: the first entry whose \<^verbatim>\<open>type\<close> equals the wanted one
  decides; a string value holding a percent sign loses every percent sign and goes
  through \<^verbatim>\<open>int\<close>; no entry gives \<^verbatim>\<open>None\<close>.
\<close>

fun get_stat :: "json list \<Rightarrow> string \<Rightarrow> error + json" where
  "get_stat [] stat_type = Inr JNull"
| "get_stat (stat # rest) stat_type =
     bind_err (py_get stat ''type'') (\<lambda>ty.
       if ty = JStr stat_type
       then bind_err (py_get stat ''value'') (\<lambda>v.
              case v of
                JStr s \<Rightarrow>
                  if CHR ''%'' \<in> set s
                  then (case py_int (filter (\<lambda>c. c \<noteq> CHR ''%'') s) of
                          None \<Rightarrow> Inl ValueError
                        | Some n \<Rightarrow> Inr (JInt n))
                  else Inr v
              | _ \<Rightarrow> Inr v)
       else get_stat rest stat_type)"

text \<open>The call as the source writes it: the \<^verbatim>\<open>for\<close> loop first iterates its argument.\<close>

definition get_stat_of :: "json \<Rightarrow> string \<Rightarrow> error + json" where
  "get_stat_of stats_list stat_type = bind_err (py_iter stats_list) (\<lambda>xs. get_stat xs stat_type)"

section \<open>The relational store\<close>

text \<open>
  Modelled from the spec: the schema of the tables \<^verbatim>\<open>fixtures\<close>, \<^verbatim>\<open>teams\<close> and
  \<^verbatim>\<open>fixture_stats\<close> (the migration is not among the sources). The columns are the
  ones the statements name, typed as section 3 of the specification and the values the
  worker passes say: identifiers, dates, status, names and URLs are nullable text, scores
  and statistics nullable integers, the key column is the primary key. \<^verbatim>\<open>NOW()\<close> is a
  number the caller supplies. A table is the list of its rows; a prefix tells the tables'
  columns apart (\<open>fx_\<close>, \<open>tm_\<close>, \<open>st_\<close>). The connection itself does not fail
  here: a statement is refused only for an argument the driver cannot encode, a
  \<^verbatim>\<open>NULL\<close> key or a negative \<^verbatim>\<open>LIMIT\<close>.
\<close>

record fixture_row =
  fx_id :: string
  fx_league_id :: "string option"
  fx_home_team_id :: "string option"
  fx_away_team_id :: "string option"
  fx_match_date :: "string option"
  fx_status :: "string option"
  fx_home_score :: "int option"
  fx_away_score :: "int option"
  fx_venue :: "string option"
  fx_referee_id :: "string option"
  fx_updated_at :: nat

record team_row =
  tm_id :: string
  tm_name :: "string option"
  tm_logo_url :: "string option"
  tm_country :: "string option"
  tm_league_id :: "string option"
  tm_founded :: "int option"
  tm_venue :: "string option"
  tm_created_at :: nat

record stats_row =
  st_fixture_id :: string
  st_home_xg :: "int option"
  st_away_xg :: "int option"
  st_home_possession :: "int option"
  st_away_possession :: "int option"
  st_home_shots :: "int option"
  st_away_shots :: "int option"
  st_home_shots_on_target :: "int option"
  st_away_shots_on_target :: "int option"
  st_home_corners :: "int option"
  st_away_corners :: "int option"
  st_home_fouls :: "int option"
  st_away_fouls :: "int option"
  st_updated_at :: nat

text \<open>
  The driver encodes each argument for its column before the statement is sent:
  \<^verbatim>\<open>None\<close> is \<^verbatim>\<open>NULL\<close>, a text column takes a string, an integer column an integer,
  and any other value is refused with a \<^verbatim>\<open>DataError\<close>. The server refuses
  \<^verbatim>\<open>NULL\<close> in the key column.
\<close>

fun as_text :: "json \<Rightarrow> error + string option" where
  "as_text JNull = Inr None"
| "as_text (JStr s) = Inr (Some s)"
| "as_text _ = Inl DataError"

fun as_int :: "json \<Rightarrow> error + int option" where
  "as_int JNull = Inr None"
| "as_int (JInt n) = Inr (Some n)"
| "as_int _ = Inl DataError"

definition not_null :: "string option \<Rightarrow> error + string" where
  "not_null v = (case v of None \<Rightarrow> Inl PostgresError | Some s \<Rightarrow> Inr s)"

subsection \<open>Fixtures\<close>

text \<open>
  \<^verbatim>\<open>INSERT INTO fixtures ... ON CONFLICT (id) DO UPDATE SET status, home_score,
  away_score, updated_at\<close>: \<open>v\<close> is the row proposed for insertion (\<^verbatim>\<open>EXCLUDED\<close>).
\<close>

fun upsert_fixture_rows :: "fixture_row \<Rightarrow> fixture_row list \<Rightarrow> fixture_row list" where
  "upsert_fixture_rows v [] = [v]"
| "upsert_fixture_rows v (r # rs) =
     (if fx_id r = fx_id v
      then r\<lparr>fx_status := fx_status v,
             fx_home_score := fx_home_score v,
             fx_away_score := fx_away_score v,
             fx_updated_at := fx_updated_at v\<rparr> # rs
      else r # upsert_fixture_rows v rs)"

text \<open>The ten arguments of \<^verbatim>\<open>SupabaseClient.upsert_fixture\<close>, read with \<^verbatim>\<open>get\<close>.\<close>

definition fixture_values :: "pydict \<Rightarrow> nat \<Rightarrow> error + fixture_row" where
  "fixture_values fixture_data now =
     bind_err (as_text (dict_get fixture_data ''id'')) (\<lambda>a1.
     bind_err (as_text (dict_get fixture_data ''league_id'')) (\<lambda>a2.
     bind_err (as_text (dict_get fixture_data ''home_team_id'')) (\<lambda>a3.
     bind_err (as_text (dict_get fixture_data ''away_team_id'')) (\<lambda>a4.
     bind_err (as_text (dict_get fixture_data ''match_date'')) (\<lambda>a5.
     bind_err (as_text (dict_get fixture_data ''status'')) (\<lambda>a6.
     bind_err (as_int (dict_get fixture_data ''home_score'')) (\<lambda>a7.
     bind_err (as_int (dict_get fixture_data ''away_score'')) (\<lambda>a8.
     bind_err (as_text (dict_get fixture_data ''venue'')) (\<lambda>a9.
     bind_err (as_text (dict_get fixture_data ''referee_id'')) (\<lambda>a10.
     bind_err (not_null a1) (\<lambda>k.
       Inr \<lparr>fx_id = k, fx_league_id = a2, fx_home_team_id = a3, fx_away_team_id = a4,
            fx_match_date = a5, fx_status = a6, fx_home_score = a7, fx_away_score = a8,
            fx_venue = a9, fx_referee_id = a10, fx_updated_at = now\<rparr>)))))))))))"

definition upsert_fixture :: "pydict \<Rightarrow> nat \<Rightarrow> fixture_row list \<Rightarrow> error + fixture_row list" where
  "upsert_fixture fixture_data now tbl =
     bind_err (fixture_values fixture_data now) (\<lambda>v. Inr (upsert_fixture_rows v tbl))"

text \<open>
  \<^verbatim>\<open>SupabaseClient.get_fixtures\<close>: each filter that is given and not empty adds a
  condition; a \<^verbatim>\<open>NULL\<close> column fails every comparison. The rows come in ascending
  order of \<^verbatim>\<open>match_date\<close>, \<^verbatim>\<open>NULL\<close> last, and \<^verbatim>\<open>LIMIT\<close> keeps the first ones; a
  negative \<^verbatim>\<open>LIMIT\<close> is an error of the server.
\<close>

definition from_ok :: "string option \<Rightarrow> fixture_row \<Rightarrow> bool" where
  "from_ok date_from r =
     (case date_from of
        None \<Rightarrow> True
      | Some f \<Rightarrow> if f = [] then True
                  else (case fx_match_date r of None \<Rightarrow> False | Some d \<Rightarrow> f \<le> d))"

definition to_ok :: "string option \<Rightarrow> fixture_row \<Rightarrow> bool" where
  "to_ok date_to r =
     (case date_to of
        None \<Rightarrow> True
      | Some t \<Rightarrow> if t = [] then True
                  else (case fx_match_date r of None \<Rightarrow> False | Some d \<Rightarrow> d \<le> t))"

definition league_ok :: "string option \<Rightarrow> fixture_row \<Rightarrow> bool" where
  "league_ok league_id r =
     (case league_id of
        None \<Rightarrow> True
      | Some l \<Rightarrow> if l = [] then True else fx_league_id r = Some l)"

definition status_ok :: "string option \<Rightarrow> fixture_row \<Rightarrow> bool" where
  "status_ok status r =
     (case status of
        None \<Rightarrow> True
      | Some s \<Rightarrow> if s = [] then True else fx_status r = Some s)"

definition fixture_matches ::
  "string option \<Rightarrow> string option \<Rightarrow> string option \<Rightarrow> string option \<Rightarrow> fixture_row \<Rightarrow> bool" where
  "fixture_matches date_from date_to league_id status r =
     (from_ok date_from r \<and> to_ok date_to r \<and> league_ok league_id r \<and> status_ok status r)"

definition match_date_key :: "fixture_row \<Rightarrow> nat \<times> string" where
  "match_date_key r = (case fx_match_date r of None \<Rightarrow> (1, []) | Some d \<Rightarrow> (0, d))"

definition get_fixtures ::
  "string option \<Rightarrow> string option \<Rightarrow> string option \<Rightarrow> string option \<Rightarrow> int \<Rightarrow>
   fixture_row list \<Rightarrow> error + fixture_row list" where
  "get_fixtures date_from date_to league_id status limit tbl =
     (if limit < 0 then Inl PostgresError
      else Inr (take (nat limit)
             (sort_key match_date_key
               (filter (fixture_matches date_from date_to league_id status) tbl))))"

subsection \<open>Teams\<close>

text \<open>
  \<^verbatim>\<open>INSERT INTO teams ... ON CONFLICT (id) DO UPDATE SET name, logo_url, venue\<close>.
\<close>

fun upsert_team_rows :: "team_row \<Rightarrow> team_row list \<Rightarrow> team_row list" where
  "upsert_team_rows v [] = [v]"
| "upsert_team_rows v (r # rs) =
     (if tm_id r = tm_id v
      then r\<lparr>tm_name := tm_name v, tm_logo_url := tm_logo_url v, tm_venue := tm_venue v\<rparr> # rs
      else r # upsert_team_rows v rs)"

definition team_values :: "pydict \<Rightarrow> nat \<Rightarrow> error + team_row" where
  "team_values team_data now =
     bind_err (as_text (dict_get team_data ''id'')) (\<lambda>a1.
     bind_err (as_text (dict_get team_data ''name'')) (\<lambda>a2.
     bind_err (as_text (dict_get team_data ''logo_url'')) (\<lambda>a3.
     bind_err (as_text (dict_get team_data ''country'')) (\<lambda>a4.
     bind_err (as_text (dict_get team_data ''league_id'')) (\<lambda>a5.
     bind_err (as_int (dict_get team_data ''founded'')) (\<lambda>a6.
     bind_err (as_text (dict_get team_data ''venue'')) (\<lambda>a7.
     bind_err (not_null a1) (\<lambda>k.
       Inr \<lparr>tm_id = k, tm_name = a2, tm_logo_url = a3, tm_country = a4,
            tm_league_id = a5, tm_founded = a6, tm_venue = a7, tm_created_at = now\<rparr>))))))))"

definition upsert_team :: "pydict \<Rightarrow> nat \<Rightarrow> team_row list \<Rightarrow> error + team_row list" where
  "upsert_team team_data now tbl =
     bind_err (team_values team_data now) (\<lambda>v. Inr (upsert_team_rows v tbl))"

subsection \<open>Fixture statistics\<close>

text \<open>
  \<^verbatim>\<open>INSERT INTO fixture_stats ... ON CONFLICT (fixture_id) DO UPDATE SET home_xg,
  away_xg, home_possession, away_possession, home_shots, away_shots, updated_at\<close>.
\<close>

fun upsert_stats_rows :: "stats_row \<Rightarrow> stats_row list \<Rightarrow> stats_row list" where
  "upsert_stats_rows v [] = [v]"
| "upsert_stats_rows v (r # rs) =
     (if st_fixture_id r = st_fixture_id v
      then r\<lparr>st_home_xg := st_home_xg v,
             st_away_xg := st_away_xg v,
             st_home_possession := st_home_possession v,
             st_away_possession := st_away_possession v,
             st_home_shots := st_home_shots v,
             st_away_shots := st_away_shots v,
             st_updated_at := st_updated_at v\<rparr> # rs
      else r # upsert_stats_rows v rs)"

definition stats_values :: "string \<Rightarrow> pydict \<Rightarrow> nat \<Rightarrow> error + stats_row" where
  "stats_values fixture_id stats now =
     bind_err (as_int (dict_get stats ''home_xg'')) (\<lambda>a2.
     bind_err (as_int (dict_get stats ''away_xg'')) (\<lambda>a3.
     bind_err (as_int (dict_get stats ''home_possession'')) (\<lambda>a4.
     bind_err (as_int (dict_get stats ''away_possession'')) (\<lambda>a5.
     bind_err (as_int (dict_get stats ''home_shots'')) (\<lambda>a6.
     bind_err (as_int (dict_get stats ''away_shots'')) (\<lambda>a7.
     bind_err (as_int (dict_get stats ''home_shots_on_target'')) (\<lambda>a8.
     bind_err (as_int (dict_get stats ''away_shots_on_target'')) (\<lambda>a9.
     bind_err (as_int (dict_get stats ''home_corners'')) (\<lambda>a10.
     bind_err (as_int (dict_get stats ''away_corners'')) (\<lambda>a11.
     bind_err (as_int (dict_get stats ''home_fouls'')) (\<lambda>a12.
     bind_err (as_int (dict_get stats ''away_fouls'')) (\<lambda>a13.
       Inr \<lparr>st_fixture_id = fixture_id,
            st_home_xg = a2, st_away_xg = a3,
            st_home_possession = a4, st_away_possession = a5,
            st_home_shots = a6, st_away_shots = a7,
            st_home_shots_on_target = a8, st_away_shots_on_target = a9,
            st_home_corners = a10, st_away_corners = a11,
            st_home_fouls = a12, st_away_fouls = a13,
            st_updated_at = now\<rparr>))))))))))))"

definition upsert_fixture_stats ::
  "string \<Rightarrow> pydict \<Rightarrow> nat \<Rightarrow> stats_row list \<Rightarrow> error + stats_row list" where
  "upsert_fixture_stats fixture_id stats now tbl =
     bind_err (stats_values fixture_id stats now) (\<lambda>v. Inr (upsert_stats_rows v tbl))"

section \<open>The worker's surroundings\<close>

text \<open>
  What the worker reaches over the network is a parameter: the upstream's answer to the
  fixtures request of a league and date range and to the statistics request of a fixture
  (the parsed body, or the exception of the request, of \<^verbatim>\<open>raise_for_status\<close> or of
  \<^verbatim>\<open>response.json()\<close>), the download of an asset (content type and body), whether the
  bucket answers \<^verbatim>\<open>head_object\<close> and accepts \<^verbatim>\<open>put_object\<close> for a key, the public
  base URL of the bucket (\<^verbatim>\<open>settings.R2_PUBLIC_URL\<close>), and the time \<^verbatim>\<open>NOW()\<close> gives
  to the n-th stamped statement.
\<close>

record env =
  fetch_fixtures :: "string \<Rightarrow> string \<Rightarrow> string \<Rightarrow> error + json"
  fetch_statistics :: "string \<Rightarrow> error + json"
  download :: "string \<Rightarrow> error + (string option \<times> string)"
  head_object_ok :: "string \<Rightarrow> bool"
  put_object_ok :: "string \<Rightarrow> bool"
  public_url :: string
  clock :: "nat \<Rightarrow> nat"

text \<open>
  The state the worker changes: the three tables, the bucket (key to content type and
  body), and two counters that observe it: the keys \<^verbatim>\<open>put_object\<close> stored, in order,
  and the number of stamped statements so far.
\<close>

record store =
  db_fixtures :: "fixture_row list"
  db_teams :: "team_row list"
  db_fixture_stats :: "stats_row list"
  r2_bucket :: "string \<Rightarrow> (string \<times> string) option"
  r2_uploads :: "string list"
  db_stmts :: nat

text \<open>
  A call that may change the store and may raise returns the exception or its value, and
  the store as the call left it.
\<close>

type_synonym 'a action = "store \<Rightarrow> (error + 'a) \<times> store"

definition lift :: "error + 'a \<Rightarrow> 'a action" where
  "lift r st = (r, st)"

definition bind_a :: "'a action \<Rightarrow> ('a \<Rightarrow> 'b action) \<Rightarrow> 'b action" where
  "bind_a m f st = (case m st of (Inl e, st') \<Rightarrow> (Inl e, st') | (Inr x, st') \<Rightarrow> f x st')"

text \<open>The calls on the shared database client: a statement that fails changes nothing.\<close>

definition client_upsert_fixture :: "env \<Rightarrow> pydict \<Rightarrow> unit action" where
  "client_upsert_fixture e fixture_data st =
     (case upsert_fixture fixture_data (clock e (db_stmts st)) (db_fixtures st) of
        Inl err \<Rightarrow> (Inl err, st)
      | Inr tbl \<Rightarrow> (Inr (), st\<lparr>db_fixtures := tbl, db_stmts := Suc (db_stmts st)\<rparr>))"

definition client_upsert_team :: "env \<Rightarrow> pydict \<Rightarrow> unit action" where
  "client_upsert_team e team_data st =
     (case upsert_team team_data (clock e (db_stmts st)) (db_teams st) of
        Inl err \<Rightarrow> (Inl err, st)
      | Inr tbl \<Rightarrow> (Inr (), st\<lparr>db_teams := tbl, db_stmts := Suc (db_stmts st)\<rparr>))"

definition client_upsert_fixture_stats :: "env \<Rightarrow> string \<Rightarrow> pydict \<Rightarrow> unit action" where
  "client_upsert_fixture_stats e fixture_id stats st =
     (case upsert_fixture_stats fixture_id stats (clock e (db_stmts st)) (db_fixture_stats st) of
        Inl err \<Rightarrow> (Inl err, st)
      | Inr tbl \<Rightarrow> (Inr (), st\<lparr>db_fixture_stats := tbl, db_stmts := Suc (db_stmts st)\<rparr>))"

section \<open>The record mapper and the fixture window sync\<close>

text \<open>\<^verbatim>\<open>SyncWorker._save_team\<close>: the dict it builds, and the call.\<close>

definition team_obj :: "json \<Rightarrow> error + pydict" where
  "team_obj team_data =
     bind_err (py_get team_data ''id'') (\<lambda>i.
     bind_err (py_get team_data ''name'') (\<lambda>n.
     bind_err (py_get team_data ''logo'') (\<lambda>l.
     bind_err (py_get team_data ''country'') (\<lambda>c.
       Inr [(''id'', JStr (py_str i)),
            (''name'', n),
            (''logo_url'', l),
            (''country'', c),
            (''league_id'', JNull),
            (''founded'', JNull),
            (''venue'', JNull)]))))"

definition save_team :: "env \<Rightarrow> json \<Rightarrow> unit action" where
  "save_team e team_data =
     (if \<not> py_truthy team_data then lift (Inr ())
      else bind_a (lift (team_obj team_data)) (client_upsert_team e))"

text \<open>
  \<^verbatim>\<open>SyncWorker._save_fixture\<close>: the dict built from the four nested objects (the mapping
  step), then the upsert of the fixture, then of the home and of the away team.
\<close>

definition fixture_obj :: "json \<Rightarrow> json \<Rightarrow> json \<Rightarrow> json \<Rightarrow> error + pydict" where
  "fixture_obj fixture league teams goals =
     bind_err (py_get fixture ''id'') (\<lambda>fid.
     bind_err (py_get league ''id'') (\<lambda>lid.
     bind_err (bind_err (py_get_default teams ''home'' (JObj [])) (\<lambda>h. py_get h ''id'')) (\<lambda>hid.
     bind_err (bind_err (py_get_default teams ''away'' (JObj [])) (\<lambda>a. py_get a ''id'')) (\<lambda>aid.
     bind_err (py_get fixture ''date'') (\<lambda>date.
     bind_err (bind_err (py_get_default fixture ''status'' (JObj []))
                 (\<lambda>s. py_get_default s ''short'' (JStr ''NS''))) (\<lambda>status.
     bind_err (py_get goals ''home'') (\<lambda>hs.
     bind_err (py_get goals ''away'') (\<lambda>as.
     bind_err (bind_err (py_get_default fixture ''venue'' (JObj [])) (\<lambda>v. py_get v ''name'')) (\<lambda>venue.
     bind_err (py_get fixture ''referee'') (\<lambda>referee.
       Inr [(''id'', JStr (py_str fid)),
            (''league_id'', JStr (py_str lid)),
            (''home_team_id'', JStr (py_str hid)),
            (''away_team_id'', JStr (py_str aid)),
            (''match_date'', date),
            (''status'', status),
            (''home_score'', hs),
            (''away_score'', as),
            (''venue'', venue),
            (''referee_id'', referee)]))))))))))"

definition map_fixture :: "json \<Rightarrow> error + pydict" where
  "map_fixture fixture_data =
     bind_err (py_get_default fixture_data ''fixture'' (JObj [])) (\<lambda>fixture.
     bind_err (py_get_default fixture_data ''league'' (JObj [])) (\<lambda>league.
     bind_err (py_get_default fixture_data ''teams'' (JObj [])) (\<lambda>teams.
     bind_err (py_get_default fixture_data ''goals'' (JObj [])) (\<lambda>goals.
       fixture_obj fixture league teams goals))))"

definition save_fixture :: "env \<Rightarrow> json \<Rightarrow> unit action" where
  "save_fixture e fixture_data =
     bind_a (lift (py_get_default fixture_data ''fixture'' (JObj []))) (\<lambda>fixture.
     bind_a (lift (py_get_default fixture_data ''league'' (JObj []))) (\<lambda>league.
     bind_a (lift (py_get_default fixture_data ''teams'' (JObj []))) (\<lambda>teams.
     bind_a (lift (py_get_default fixture_data ''goals'' (JObj []))) (\<lambda>goals.
     bind_a (lift (fixture_obj fixture league teams goals)) (\<lambda>obj.
     bind_a (client_upsert_fixture e obj) (\<lambda>_.
     bind_a (lift (py_get teams ''home'')) (\<lambda>home.
     bind_a (save_team e home) (\<lambda>_.
     bind_a (lift (py_get teams ''away'')) (\<lambda>away.
       save_team e away)))))))))"

text \<open>
  \<^verbatim>\<open>SyncWorker.sync_fixtures\<close>. The loop over the fixtures of one league counts each
  saved fixture and stops at the first exception; the counter keeps what it had.
\<close>

fun save_fixtures :: "env \<Rightarrow> json list \<Rightarrow> nat \<Rightarrow> store \<Rightarrow> error option \<times> nat \<times> store" where
  "save_fixtures e [] total_synced st = (None, total_synced, st)"
| "save_fixtures e (fixture # rest) total_synced st =
     (case save_fixture e fixture st of
        (Inl err, st') \<Rightarrow> (Some err, total_synced, st')
      | (Inr _, st') \<Rightarrow> save_fixtures e rest (Suc total_synced) st')"

text \<open>
  The body of the \<^verbatim>\<open>try\<close> for one league; the \<^verbatim>\<open>except\<close> logs and goes on to the next
  league with the counter and the store as they are.
\<close>

definition league_fixtures :: "env \<Rightarrow> string \<Rightarrow> string \<Rightarrow> string \<Rightarrow> error + json list" where
  "league_fixtures e league_id date_from date_to =
     bind_err (fetch_fixtures e league_id date_from date_to) (\<lambda>data.
     bind_err (py_get_default data ''response'' (JList [])) (\<lambda>fixtures.
     bind_err (py_len fixtures) (\<lambda>_. py_iter fixtures)))"

definition sync_league ::
  "env \<Rightarrow> string \<Rightarrow> string \<Rightarrow> string \<Rightarrow> nat \<times> store \<Rightarrow> nat \<times> store" where
  "sync_league e date_from date_to league_id acc =
     (case league_fixtures e league_id date_from date_to of
        Inl err \<Rightarrow> acc
      | Inr fixtures \<Rightarrow> snd (save_fixtures e fixtures (fst acc) (snd acc)))"

definition default_leagues :: "string list" where
  "default_leagues = [''39'', ''140'', ''78'', ''135'', ''61'']"

definition sync_fixtures ::
  "env \<Rightarrow> string \<Rightarrow> string \<Rightarrow> string list option \<Rightarrow> store \<Rightarrow> nat \<times> store" where
  "sync_fixtures e date_from date_to leagues st =
     foldl (\<lambda>acc league_id. sync_league e date_from date_to league_id acc) (0, st)
       (case leagues of None \<Rightarrow> default_leagues
        | Some ls \<Rightarrow> if ls = [] then default_leagues else ls)"

section \<open>The asset mirror and the logo backfill\<close>

text \<open>
  \<^verbatim>\<open>R2StorageClient\<close>. \<^verbatim>\<open>file_exists\<close> is true when \<^verbatim>\<open>head_object\<close> answers and
  the key is there; any \<^verbatim>\<open>ClientError\<close> makes it false. Of the table of
  \<^verbatim>\<open>mimetypes.guess_type\<close> only the suffix of the worker's keys is kept.
\<close>

definition file_exists :: "env \<Rightarrow> string \<Rightarrow> store \<Rightarrow> bool" where
  "file_exists e object_key st = (head_object_ok e object_key \<and> r2_bucket st object_key \<noteq> None)"

definition get_public_url :: "env \<Rightarrow> string \<Rightarrow> string" where
  "get_public_url e object_key = public_url e @ ''/'' @ object_key"

definition ends_with :: "string \<Rightarrow> string \<Rightarrow> bool" where
  "ends_with suffix s = (length suffix \<le> length s \<and> drop (length s - length suffix) s = suffix)"

definition guess_type :: "string \<Rightarrow> string option" where
  "guess_type object_key = (if ends_with ''.png'' object_key then Some ''image/png'' else None)"

definition content_type_for :: "string \<Rightarrow> string option \<Rightarrow> string" where
  "content_type_for object_key content_type =
     (let guessed = (case guess_type object_key of
                       None \<Rightarrow> ''application/octet-stream''
                     | Some g \<Rightarrow> g)
      in case content_type of
           None \<Rightarrow> guessed
         | Some c \<Rightarrow> if c = [] then guessed else c)"

definition upload_file :: "env \<Rightarrow> string \<Rightarrow> string \<Rightarrow> string option \<Rightarrow> string action" where
  "upload_file e file_data object_key content_type st =
     (if put_object_ok e object_key
      then (Inr (public_url e @ ''/'' @ object_key),
            st\<lparr>r2_bucket := (r2_bucket st)
                    (object_key \<mapsto> (content_type_for object_key content_type, file_data)),
               r2_uploads := r2_uploads st @ [object_key]\<rparr>)
      else (Inl ClientError, st))"

definition upload_from_url :: "env \<Rightarrow> string \<Rightarrow> string \<Rightarrow> string action" where
  "upload_from_url e url object_key st =
     (case download e url of
        Inl err \<Rightarrow> (Inl err, st)
      | Inr resp \<Rightarrow> upload_file e (snd resp) object_key (fst resp) st)"

definition upload_team_logo :: "env \<Rightarrow> string \<Rightarrow> string \<Rightarrow> string action" where
  "upload_team_logo e team_id logo_url st =
     (let object_key = ''teams/'' @ team_id @ ''.png''
      in if file_exists e object_key st
         then (Inr (get_public_url e object_key), st)
         else upload_from_url e logo_url object_key st)"

text \<open>
  \<^verbatim>\<open>SyncWorker.sync_team_logos\<close>: the teams whose logo still starts with the upstream's
  prefix, at most \<^verbatim>\<open>limit\<close> of them (id, name, logo); for each one the mirror call and
  the \<^verbatim>\<open>UPDATE teams SET logo_url = $1 WHERE id = $2\<close>; an exception skips the team.
\<close>

definition upstream_prefix :: string where
  "upstream_prefix = ''https://media.api-sports.io''"

definition starts_with :: "string \<Rightarrow> string \<Rightarrow> bool" where
  "starts_with prefix s = (take (length prefix) s = prefix)"

definition teams_without_r2_logo ::
  "int \<Rightarrow> team_row list \<Rightarrow> error + (string \<times> string option \<times> string) list" where
  "teams_without_r2_logo limit tbl =
     (if limit < 0 then Inl PostgresError
      else Inr (take (nat limit)
             (List.map_filter
               (\<lambda>r. case tm_logo_url r of
                      None \<Rightarrow> None
                    | Some u \<Rightarrow> if starts_with upstream_prefix u
                                then Some (tm_id r, tm_name r, u) else None)
               tbl)))"

definition update_logo_url :: "string \<Rightarrow> string \<Rightarrow> team_row list \<Rightarrow> team_row list" where
  "update_logo_url r2_url team_id tbl =
     map (\<lambda>r. if tm_id r = team_id then r\<lparr>tm_logo_url := Some r2_url\<rparr> else r) tbl"

fun logos_loop ::
  "env \<Rightarrow> (string \<times> string option \<times> string) list \<Rightarrow> nat \<Rightarrow> store \<Rightarrow> nat \<times> store" where
  "logos_loop e [] uploaded st = (uploaded, st)"
| "logos_loop e (team # rest) uploaded st =
     (case upload_team_logo e (fst team) (snd (snd team)) st of
        (Inl err, st') \<Rightarrow> logos_loop e rest uploaded st'
      | (Inr r2_url, st') \<Rightarrow>
          logos_loop e rest (Suc uploaded)
            (st'\<lparr>db_teams := update_logo_url r2_url (fst team) (db_teams st')\<rparr>))"

definition sync_team_logos :: "env \<Rightarrow> int \<Rightarrow> nat action" where
  "sync_team_logos e limit st =
     (case teams_without_r2_logo limit (db_teams st) of
        Inl err \<Rightarrow> (Inl err, st)
      | Inr ts \<Rightarrow> (case logos_loop e ts 0 st of (uploaded, st') \<Rightarrow> (Inr uploaded, st')))"

section \<open>The fixture stats sync\<close>

text \<open>
  \<^verbatim>\<open>SyncWorker._parse_fixture_stats\<close>: the statistics of the first two entries of the
  response, and the twelve fields in the order the dict names them.
\<close>

definition team_statistics :: "json \<Rightarrow> nat \<Rightarrow> error + json" where
  "team_statistics stats_data i =
     bind_err (py_len stats_data) (\<lambda>n.
       if n > i
       then bind_err (py_index stats_data i) (\<lambda>entry. py_get_default entry ''statistics'' (JList []))
       else Inr (JList []))"

definition parse_fixture_stats :: "json \<Rightarrow> error + pydict" where
  "parse_fixture_stats stats_data =
     bind_err (team_statistics stats_data 0) (\<lambda>home_stats.
     bind_err (team_statistics stats_data 1) (\<lambda>away_stats.
     bind_err (get_stat_of home_stats ''Ball Possession'') (\<lambda>v1.
     bind_err (get_stat_of away_stats ''Ball Possession'') (\<lambda>v2.
     bind_err (get_stat_of home_stats ''Total Shots'') (\<lambda>v3.
     bind_err (get_stat_of away_stats ''Total Shots'') (\<lambda>v4.
     bind_err (get_stat_of home_stats ''Shots on Goal'') (\<lambda>v5.
     bind_err (get_stat_of away_stats ''Shots on Goal'') (\<lambda>v6.
     bind_err (get_stat_of home_stats ''Corner Kicks'') (\<lambda>v7.
     bind_err (get_stat_of away_stats ''Corner Kicks'') (\<lambda>v8.
     bind_err (get_stat_of home_stats ''Fouls'') (\<lambda>v9.
     bind_err (get_stat_of away_stats ''Fouls'') (\<lambda>v10.
       Inr [(''home_xg'', JNull),
            (''away_xg'', JNull),
            (''home_possession'', v1),
            (''away_possession'', v2),
            (''home_shots'', v3),
            (''away_shots'', v4),
            (''home_shots_on_target'', v5),
            (''away_shots_on_target'', v6),
            (''home_corners'', v7),
            (''away_corners'', v8),
            (''home_fouls'', v9),
            (''away_fouls'', v10)]))))))))))))"

text \<open>
  \<^verbatim>\<open>SyncWorker.sync_fixture_stats\<close>: the body of the \<^verbatim>\<open>try\<close> for one fixture id, and
  the loop that counts the ids it went through without an exception.
\<close>

definition sync_stats_of :: "env \<Rightarrow> string \<Rightarrow> unit action" where
  "sync_stats_of e fixture_id =
     bind_a (lift (fetch_statistics e fixture_id)) (\<lambda>data.
     bind_a (lift (py_get_default data ''response'' (JList []))) (\<lambda>response.
     bind_a (lift (parse_fixture_stats response)) (\<lambda>stats.
       client_upsert_fixture_stats e fixture_id stats)))"

fun stats_loop :: "env \<Rightarrow> string list \<Rightarrow> nat \<Rightarrow> store \<Rightarrow> nat \<times> store" where
  "stats_loop e [] synced st = (synced, st)"
| "stats_loop e (fixture_id # rest) synced st =
     (case sync_stats_of e fixture_id st of
        (Inl err, st') \<Rightarrow> stats_loop e rest synced st'
      | (Inr _, st') \<Rightarrow> stats_loop e rest (Suc synced) st')"

definition sync_fixture_stats :: "env \<Rightarrow> string list \<Rightarrow> store \<Rightarrow> nat \<times> store" where
  "sync_fixture_stats e fixture_ids st = stats_loop e fixture_ids 0 st"

section \<open>Example data\<close>

text \<open>Two payloads for the fixture \<^verbatim>\<open>1001\<close> that differ in every field but the id.\<close>

definition fixture_1001_old :: pydict where
  "fixture_1001_old =
     [(''id'', JStr ''1001''), (''league_id'', JStr ''39''),
      (''home_team_id'', JStr ''33''), (''away_team_id'', JStr ''34''),
      (''match_date'', JStr ''2025-10-01T19:00:00+00:00''), (''status'', JStr ''NS''),
      (''home_score'', JNull), (''away_score'', JNull),
      (''venue'', JStr ''Old Trafford''), (''referee_id'', JStr ''M. Oliver'')]"

definition fixture_1001_new :: pydict where
  "fixture_1001_new =
     [(''id'', JStr ''1001''), (''league_id'', JStr ''140''),
      (''home_team_id'', JStr ''40''), (''away_team_id'', JStr ''50''),
      (''match_date'', JStr ''2025-10-02T20:00:00+00:00''), (''status'', JStr ''FT''),
      (''home_score'', JInt 2), (''away_score'', JInt 1),
      (''venue'', JStr ''Anfield''), (''referee_id'', JStr ''A. Taylor'')]"

definition row_1001_old :: fixture_row where
  "row_1001_old =
     \<lparr>fx_id = ''1001'', fx_league_id = Some ''39'',
      fx_home_team_id = Some ''33'', fx_away_team_id = Some ''34'',
      fx_match_date = Some ''2025-10-01T19:00:00+00:00'', fx_status = Some ''NS'',
      fx_home_score = None, fx_away_score = None,
      fx_venue = Some ''Old Trafford'', fx_referee_id = Some ''M. Oliver'',
      fx_updated_at = 1\<rparr>"

definition row_1001_new :: fixture_row where
  "row_1001_new =
     \<lparr>fx_id = ''1001'', fx_league_id = Some ''140'',
      fx_home_team_id = Some ''40'', fx_away_team_id = Some ''50'',
      fx_match_date = Some ''2025-10-02T20:00:00+00:00'', fx_status = Some ''FT'',
      fx_home_score = Some 2, fx_away_score = Some 1,
      fx_venue = Some ''Anfield'', fx_referee_id = Some ''A. Taylor'',
      fx_updated_at = 1\<rparr>"

text \<open>A table of four fixtures for the reads.\<close>

definition fixture_row_of ::
  "string \<Rightarrow> string \<Rightarrow> string \<Rightarrow> string \<Rightarrow> fixture_row" where
  "fixture_row_of i league date status =
     \<lparr>fx_id = i, fx_league_id = Some league,
      fx_home_team_id = Some ''33'', fx_away_team_id = Some ''34'',
      fx_match_date = Some date, fx_status = Some status,
      fx_home_score = None, fx_away_score = None,
      fx_venue = None, fx_referee_id = None, fx_updated_at = 0\<rparr>"

definition four_fixtures :: "fixture_row list" where
  "four_fixtures =
     [fixture_row_of ''1001'' ''39'' ''2025-10-03'' ''NS'',
      fixture_row_of ''1002'' ''39'' ''2025-10-01'' ''FT'',
      fixture_row_of ''1003'' ''140'' ''2025-10-02'' ''NS'',
      fixture_row_of ''1004'' ''39'' ''2025-10-02'' ''NS'']"

text \<open>Two statistics records for the fixture \<^verbatim>\<open>1001\<close> that differ in every field.\<close>

definition stats_old :: pydict where
  "stats_old =
     [(''home_xg'', JNull), (''away_xg'', JNull),
      (''home_possession'', JInt 55), (''away_possession'', JInt 45),
      (''home_shots'', JInt 10), (''away_shots'', JInt 8),
      (''home_shots_on_target'', JInt 4), (''away_shots_on_target'', JInt 3),
      (''home_corners'', JInt 5), (''away_corners'', JInt 2),
      (''home_fouls'', JInt 11), (''away_fouls'', JInt 9)]"

definition stats_new :: pydict where
  "stats_new =
     [(''home_xg'', JNull), (''away_xg'', JNull),
      (''home_possession'', JInt 60), (''away_possession'', JInt 40),
      (''home_shots'', JInt 15), (''away_shots'', JInt 9),
      (''home_shots_on_target'', JInt 7), (''away_shots_on_target'', JInt 4),
      (''home_corners'', JInt 8), (''away_corners'', JInt 3),
      (''home_fouls'', JInt 14), (''away_fouls'', JInt 12)]"

text \<open>
  Upstream payloads: a team as it stands in a fixture, a fixture between two teams, a
  fixture whose \<^verbatim>\<open>fixture\<close> object is \<^verbatim>\<open>null\<close>, and a league's batch of five with
  that one in third place.
\<close>

definition team_payload :: "int \<Rightarrow> json" where
  "team_payload team_id =
     JObj [(''id'', JInt team_id),
           (''name'', JStr (''Team '' @ str_int team_id)),
           (''logo'', JStr (''https://media.api-sports.io/football/teams/'' @ str_int team_id @ ''.png''))]"

definition fixture_payload :: "int \<Rightarrow> int \<Rightarrow> int \<Rightarrow> json" where
  "fixture_payload fixture_id home away =
     JObj [(''fixture'', JObj [(''id'', JInt fixture_id),
                               (''date'', JStr ''2025-10-01T19:00:00+00:00''),
                               (''referee'', JNull),
                               (''status'', JObj [(''short'', JStr ''NS'')]),
                               (''venue'', JObj [(''name'', JStr ''Old Trafford'')])]),
           (''league'', JObj [(''id'', JInt 39)]),
           (''teams'', JObj [(''home'', team_payload home), (''away'', team_payload away)]),
           (''goals'', JObj [(''home'', JNull), (''away'', JNull)])]"

definition malformed_payload :: json where
  "malformed_payload =
     JObj [(''fixture'', JNull),
           (''league'', JObj [(''id'', JInt 39)]),
           (''teams'', JObj [(''home'', team_payload 33), (''away'', team_payload 50)]),
           (''goals'', JObj [(''home'', JNull), (''away'', JNull)])]"

definition five_fixtures :: "json list" where
  "five_fixtures =
     [fixture_payload 1 33 34, fixture_payload 2 40 50, malformed_payload,
      fixture_payload 4 33 40, fixture_payload 5 34 50]"

text \<open>
  Surroundings in which league \<^verbatim>\<open>39\<close> answers with that batch and every other league
  with an error, every statistics request answers with an empty list, every download and
  every bucket call succeeds; and a store with nothing in it.
\<close>

definition example_env :: env where
  "example_env =
     \<lparr>fetch_fixtures = (\<lambda>league date_from date_to.
          if league = ''39'' then Inr (JObj [(''response'', JList five_fixtures)])
          else Inl HTTPError),
      fetch_statistics = (\<lambda>fixture_id. Inr (JObj [(''response'', JList [])])),
      download = (\<lambda>url. Inr (Some ''image/png'', ''PNG'')),
      head_object_ok = (\<lambda>key. True),
      put_object_ok = (\<lambda>key. True),
      public_url = ''https://cdn.golex.app'',
      clock = (\<lambda>n. n)\<rparr>"

definition empty_store :: store where
  "empty_store =
     \<lparr>db_fixtures = [], db_teams = [], db_fixture_stats = [],
      r2_bucket = (\<lambda>key. None), r2_uploads = [], db_stmts = 0\<rparr>"

text \<open>A store in which team \<^verbatim>\<open>33\<close> already has its logo in the bucket.\<close>

definition mirrored_store :: store where
  "mirrored_store =
     empty_store
       \<lparr>db_teams :=
          [\<lparr>tm_id = ''33'', tm_name = Some ''Team 33'',
            tm_logo_url = Some ''https://cdn.golex.app/teams/33.png'',
            tm_country = None, tm_league_id = None, tm_founded = None,
            tm_venue = Some ''Old Trafford'', tm_created_at = 0\<rparr>],
        r2_bucket := (\<lambda>key. if key = ''teams/33.png'' then Some (''image/png'', ''PNG'') else None)\<rparr>"

text \<open>
  The statistics record with no value in it, as a dict and as the row it is stored as.
\<close>

definition null_stats :: pydict where
  "null_stats =
     [(''home_xg'', JNull), (''away_xg'', JNull),
      (''home_possession'', JNull), (''away_possession'', JNull),
      (''home_shots'', JNull), (''away_shots'', JNull),
      (''home_shots_on_target'', JNull), (''away_shots_on_target'', JNull),
      (''home_corners'', JNull), (''away_corners'', JNull),
      (''home_fouls'', JNull), (''away_fouls'', JNull)]"

definition null_stats_row :: "string \<Rightarrow> nat \<Rightarrow> stats_row" where
  "null_stats_row fixture_id now =
     \<lparr>st_fixture_id = fixture_id, st_home_xg = None, st_away_xg = None,
      st_home_possession = None, st_away_possession = None,
      st_home_shots = None, st_away_shots = None,
      st_home_shots_on_target = None, st_away_shots_on_target = None,
      st_home_corners = None, st_away_corners = None,
      st_home_fouls = None, st_away_fouls = None, st_updated_at = now\<rparr>"

text \<open>
  A store with three teams whose logos are still the upstream's, the first of which is
  already in the bucket.
\<close>

definition upstream_team :: "string \<Rightarrow> team_row" where
  "upstream_team team_id =
     \<lparr>tm_id = team_id, tm_name = Some (''Team '' @ team_id),
      tm_logo_url = Some (''https://media.api-sports.io/football/teams/'' @ team_id @ ''.png''),
      tm_country = None, tm_league_id = None, tm_founded = None,
      tm_venue = None, tm_created_at = 0\<rparr>"

definition backfill_store :: store where
  "backfill_store =
     empty_store
       \<lparr>db_teams := [upstream_team ''33'', upstream_team ''34'', upstream_team ''40''],
        r2_bucket := (\<lambda>key. if key = ''teams/33.png'' then Some (''image/png'', ''PNG'') else None)\<rparr>"

text \<open>
  The invariant of the bucket's log: no key was stored twice, and every key that was
  stored is in the bucket.
\<close>

definition uploads_ok :: "store \<Rightarrow> bool" where
  "uploads_ok st =
     (distinct (r2_uploads st) \<and> list_all (\<lambda>k. r2_bucket st k \<noteq> None) (r2_uploads st))"

text \<open>
  The shape the mapper copes with: a key of a dict is absent or holds a dict, and
  \<open>nested\<close> is that dict, the empty one when the key is absent. A payload has the shape
  when this holds of its four objects and of the four objects inside them that the mapper
  reaches into.
\<close>

definition dict_or_absent :: "pydict \<Rightarrow> string \<Rightarrow> bool" where
  "dict_or_absent d k = (case map_of d k of None \<Rightarrow> True | Some (JObj x) \<Rightarrow> True | Some _ \<Rightarrow> False)"

definition nested :: "pydict \<Rightarrow> string \<Rightarrow> pydict" where
  "nested d k = (case map_of d k of Some (JObj x) \<Rightarrow> x | _ \<Rightarrow> [])"

definition payload_ok :: "pydict \<Rightarrow> bool" where
  "payload_ok d =
     (dict_or_absent d ''fixture'' \<and> dict_or_absent d ''league'' \<and>
      dict_or_absent d ''teams'' \<and> dict_or_absent d ''goals'' \<and>
      dict_or_absent (nested d ''fixture'') ''status'' \<and>
      dict_or_absent (nested d ''fixture'') ''venue'' \<and>
      dict_or_absent (nested d ''teams'') ''home'' \<and>
      dict_or_absent (nested d ''teams'') ''away'')"

text \<open>A result that is a value or the one exception \<^verbatim>\<open>AttributeError\<close>.\<close>

definition attr_only :: "error + 'a \<Rightarrow> bool" where
  "attr_only r = (case r of Inl err \<Rightarrow> err = AttributeError | Inr x \<Rightarrow> True)"

text \<open>
  A payload with a fixture object and goals only, and one whose home team is
  \<^verbatim>\<open>null\<close>.
\<close>

definition partial_payload :: pydict where
  "partial_payload =
     [(''fixture'', JObj [(''id'', JInt 1001), (''date'', JStr ''2025-10-01T19:00:00+00:00'')]),
      (''goals'', JObj [(''home'', JInt 2), (''away'', JNull)])]"

definition null_home_payload :: pydict where
  "null_home_payload = [(''teams'', JObj [(''home'', JNull)])]"

section \<open>Sequencing\<close>

lemma bind_err_Inr [simp]: "bind_err (Inr x) f = f x"
  by (simp add: bind_err_def)

lemma bind_err_Inl [simp]: "bind_err (Inl e) f = Inl e"
  by (simp add: bind_err_def)

lemma bind_err_Inr_iff: "bind_err m f = Inr y \<longleftrightarrow> (\<exists>x. m = Inr x \<and> f x = Inr y)"
  by (cases m) simp_all

lemma map_sum_bind_err: "map_sum id g (bind_err m f) = bind_err m (\<lambda>x. map_sum id g (f x))"
  by (cases m) simp_all

lemma bind_a_lift_Inr [simp]: "bind_a (lift (Inr x)) f st = f x st"
  by (simp add: bind_a_def lift_def)

lemma bind_a_lift_Inl [simp]: "bind_a (lift (Inl err)) f st = (Inl err, st)"
  by (simp add: bind_a_def lift_def)

section \<open>Properties of the fixture upsert\<close>

lemma fixture_values_now:
  "fixture_values d now = map_sum id (fx_updated_at_update (\<lambda>_. now)) (fixture_values d 0)"
  by (simp add: fixture_values_def map_sum_bind_err)

lemma fixture_values_at:
  assumes "fixture_values d t1 = Inr v"
  shows "fixture_values d t2 = Inr (v\<lparr>fx_updated_at := t2\<rparr>)"
proof (cases "fixture_values d 0")
  case (Inl err)
  with assms fixture_values_now [of d t1] show ?thesis by simp
next
  case (Inr v0)
  with assms fixture_values_now [of d t1] have "v = v0\<lparr>fx_updated_at := t1\<rparr>" by simp
  with Inr fixture_values_now [of d t2] show ?thesis by simp
qed

lemma fixture_values_stamp:
  assumes "fixture_values d now = Inr v"
  shows "fx_updated_at v = now"
proof (cases "fixture_values d 0")
  case (Inl err)
  with assms fixture_values_now [of d now] show ?thesis by simp
next
  case (Inr v0)
  with assms fixture_values_now [of d now] show ?thesis by auto
qed

lemma upsert_fixture_rows_find:
  "find (\<lambda>x. fx_id x = fx_id v) (upsert_fixture_rows v tbl) =
     (case find (\<lambda>x. fx_id x = fx_id v) tbl of
        None \<Rightarrow> Some v
      | Some r \<Rightarrow> Some (r\<lparr>fx_status := fx_status v, fx_home_score := fx_home_score v,
                          fx_away_score := fx_away_score v, fx_updated_at := fx_updated_at v\<rparr>))"
  by (induction tbl) auto

lemma upsert_fixture_rows_twice:
  "upsert_fixture_rows (v\<lparr>fx_updated_at := t2\<rparr>) (upsert_fixture_rows v tbl) =
   upsert_fixture_rows (v\<lparr>fx_updated_at := t2\<rparr>) tbl"
  by (induction tbl) auto

lemma upsert_fixture_rows_stamp:
  "map (fx_updated_at_update (\<lambda>_. 0)) (upsert_fixture_rows (v\<lparr>fx_updated_at := t2\<rparr>) tbl) =
   map (fx_updated_at_update (\<lambda>_. 0)) (upsert_fixture_rows v tbl)"
  by (induction tbl) auto

lemma upsert_fixture_rows_ids:
  "map fx_id (upsert_fixture_rows v tbl) =
     (if fx_id v \<in> set (map fx_id tbl) then map fx_id tbl else map fx_id tbl @ [fx_id v])"
  by (induction tbl) auto

lemma upsert_fixture_rows_count:
  "distinct (map fx_id tbl) \<Longrightarrow>
   length (filter (\<lambda>r. fx_id r = fx_id v) (upsert_fixture_rows v tbl)) = 1"
  by (induction tbl) (auto simp: filter_empty_conv upsert_fixture_rows_ids image_iff split: if_splits)

lemma fixture_values_old: "fixture_values fixture_1001_old 1 = Inr row_1001_old"
  by (simp add: fixture_values_def fixture_1001_old_def row_1001_old_def dict_get_def not_null_def)

lemma fixture_values_new: "fixture_values fixture_1001_new 1 = Inr row_1001_new"
  by (simp add: fixture_values_def fixture_1001_new_def row_1001_new_def dict_get_def not_null_def)

text \<open>
  Claim C3, as the code has it. When a row with the payload's id exists,
  \<^verbatim>\<open>upsert_fixture\<close> succeeds and the stored row takes the payload's status and scores
  and the time of the statement; its league id, team ids, scheduled timestamp, venue and
  referee stay those of the existing row.
\<close>

theorem upsert_fixture_existing_row:
  assumes "fixture_values fixture_data now = Inr v"
    and "find (\<lambda>x. fx_id x = fx_id v) tbl = Some r"
  shows "\<exists>tbl' r'. upsert_fixture fixture_data now tbl = Inr tbl' \<and>
           find (\<lambda>x. fx_id x = fx_id v) tbl' = Some r' \<and>
           fx_status r' = fx_status v \<and>
           fx_home_score r' = fx_home_score v \<and>
           fx_away_score r' = fx_away_score v \<and>
           fx_updated_at r' = now \<and>
           fx_league_id r' = fx_league_id r \<and>
           fx_home_team_id r' = fx_home_team_id r \<and>
           fx_away_team_id r' = fx_away_team_id r \<and>
           fx_match_date r' = fx_match_date r \<and>
           fx_venue r' = fx_venue r \<and>
           fx_referee_id r' = fx_referee_id r"
proof -
  have "upsert_fixture fixture_data now tbl = Inr (upsert_fixture_rows v tbl)"
    using assms(1) by (simp add: upsert_fixture_def)
  moreover have "find (\<lambda>x. fx_id x = fx_id v) (upsert_fixture_rows v tbl) =
      Some (r\<lparr>fx_status := fx_status v, fx_home_score := fx_home_score v,
              fx_away_score := fx_away_score v, fx_updated_at := fx_updated_at v\<rparr>)"
    using assms(2) by (simp add: upsert_fixture_rows_find)
  moreover have "fx_updated_at v = now"
    using assms(1) by (rule fixture_values_stamp)
  ultimately show ?thesis by simp
qed

theorem upsert_fixture_existing_row_witness:
  "fixture_values fixture_1001_new 1 = Inr row_1001_new \<and>
   find (\<lambda>x. fx_id x = fx_id row_1001_new) [row_1001_old] = Some row_1001_old \<and>
   (\<exists>tbl' r'. upsert_fixture fixture_1001_new 1 [row_1001_old] = Inr tbl' \<and>
           find (\<lambda>x. fx_id x = fx_id row_1001_new) tbl' = Some r' \<and>
           fx_status r' = fx_status row_1001_new \<and>
           fx_home_score r' = fx_home_score row_1001_new \<and>
           fx_away_score r' = fx_away_score row_1001_new \<and>
           fx_updated_at r' = 1 \<and>
           fx_league_id r' = fx_league_id row_1001_old \<and>
           fx_home_team_id r' = fx_home_team_id row_1001_old \<and>
           fx_away_team_id r' = fx_away_team_id row_1001_old \<and>
           fx_match_date r' = fx_match_date row_1001_old \<and>
           fx_venue r' = fx_venue row_1001_old \<and>
           fx_referee_id r' = fx_referee_id row_1001_old)"
proof -
  have h1: "fixture_values fixture_1001_new 1 = Inr row_1001_new"
    by (rule fixture_values_new)
  have h2: "find (\<lambda>x. fx_id x = fx_id row_1001_new) [row_1001_old] = Some row_1001_old"
    by (simp add: row_1001_new_def row_1001_old_def)
  from h1 h2 upsert_fixture_existing_row [OF h1 h2] show ?thesis by blast
qed

text \<open>
  Claim C3 as stated fails: a payload that differs from the stored row in every field
  leaves league, teams, date, venue and referee as they were.
\<close>

theorem upsert_fixture_keeps_stale_fields:
  "upsert_fixture fixture_1001_new 2 [row_1001_old] =
     Inr [\<lparr>fx_id = ''1001'', fx_league_id = Some ''39'',
           fx_home_team_id = Some ''33'', fx_away_team_id = Some ''34'',
           fx_match_date = Some ''2025-10-01T19:00:00+00:00'', fx_status = Some ''FT'',
           fx_home_score = Some 2, fx_away_score = Some 1,
           fx_venue = Some ''Old Trafford'', fx_referee_id = Some ''M. Oliver'',
           fx_updated_at = 2\<rparr>]"
  using fixture_values_at [OF fixture_values_new, of 2]
  by (simp add: upsert_fixture_def row_1001_new_def row_1001_old_def)

text \<open>
  Claim C7, as the code has it. Applying \<^verbatim>\<open>upsert_fixture\<close> a second time with the
  same record, at a time \<open>t2\<close>, succeeds and gives the table that one application at
  \<open>t2\<close> gives; the table has exactly one row with the record's id; and it differs from
  the table after the first application in \<^verbatim>\<open>updated_at\<close> only (in nothing when
  \<open>t2 = t1\<close>).
\<close>

theorem upsert_fixture_twice:
  assumes "distinct (map fx_id tbl)"
    and "upsert_fixture fixture_data t1 tbl = Inr tbl1"
  shows "\<exists>tbl2 v. upsert_fixture fixture_data t2 tbl1 = Inr tbl2 \<and>
           upsert_fixture fixture_data t2 tbl = Inr tbl2 \<and>
           fixture_values fixture_data t1 = Inr v \<and>
           length (filter (\<lambda>r. fx_id r = fx_id v) tbl2) = 1 \<and>
           map (fx_updated_at_update (\<lambda>_. 0)) tbl2 = map (fx_updated_at_update (\<lambda>_. 0)) tbl1 \<and>
           (t2 = t1 \<longrightarrow> tbl2 = tbl1)"
proof (cases "fixture_values fixture_data t1")
  case (Inl err)
  with assms(2) show ?thesis by (simp add: upsert_fixture_def)
next
  case (Inr v)
  let ?v2 = "v\<lparr>fx_updated_at := t2\<rparr>"
  have v2: "fixture_values fixture_data t2 = Inr ?v2"
    using Inr by (rule fixture_values_at)
  have tbl1: "tbl1 = upsert_fixture_rows v tbl"
    using assms(2) Inr by (simp add: upsert_fixture_def)
  have a: "upsert_fixture fixture_data t2 tbl1 = Inr (upsert_fixture_rows ?v2 tbl)"
    using v2 tbl1 by (simp add: upsert_fixture_def upsert_fixture_rows_twice)
  have b: "upsert_fixture fixture_data t2 tbl = Inr (upsert_fixture_rows ?v2 tbl)"
    using v2 by (simp add: upsert_fixture_def)
  have c: "length (filter (\<lambda>r. fx_id r = fx_id v) (upsert_fixture_rows ?v2 tbl)) = 1"
    using upsert_fixture_rows_count [OF assms(1), of ?v2] by simp
  have d: "map (fx_updated_at_update (\<lambda>_. 0)) (upsert_fixture_rows ?v2 tbl) =
           map (fx_updated_at_update (\<lambda>_. 0)) tbl1"
    using tbl1 by (simp add: upsert_fixture_rows_stamp)
  have "fx_updated_at v = t1" using Inr by (rule fixture_values_stamp)
  then have e: "t2 = t1 \<longrightarrow> upsert_fixture_rows ?v2 tbl = tbl1"
    using tbl1 by auto
  from a b c d e Inr show ?thesis by blast
qed

theorem upsert_fixture_twice_witness:
  "distinct (map fx_id [row_1001_old]) \<and>
   upsert_fixture fixture_1001_new 1 [row_1001_old] =
     Inr [row_1001_old\<lparr>fx_status := Some ''FT'', fx_home_score := Some 2, fx_away_score := Some 1\<rparr>] \<and>
   (\<exists>tbl2 v. upsert_fixture fixture_1001_new 2
                [row_1001_old\<lparr>fx_status := Some ''FT'', fx_home_score := Some 2, fx_away_score := Some 1\<rparr>] = Inr tbl2 \<and>
           upsert_fixture fixture_1001_new 2 [row_1001_old] = Inr tbl2 \<and>
           fixture_values fixture_1001_new 1 = Inr v \<and>
           length (filter (\<lambda>r. fx_id r = fx_id v) tbl2) = 1 \<and>
           map (fx_updated_at_update (\<lambda>_. 0)) tbl2 =
             map (fx_updated_at_update (\<lambda>_. 0))
               [row_1001_old\<lparr>fx_status := Some ''FT'', fx_home_score := Some 2, fx_away_score := Some 1\<rparr>])"
proof -
  have h1: "distinct (map fx_id [row_1001_old])" by simp
  have h2: "upsert_fixture fixture_1001_new 1 [row_1001_old] =
     Inr [row_1001_old\<lparr>fx_status := Some ''FT'', fx_home_score := Some 2, fx_away_score := Some 1\<rparr>]"
    using fixture_values_new by (simp add: upsert_fixture_def row_1001_new_def row_1001_old_def)
  from h1 h2 upsert_fixture_twice [OF h1 h2, of 2] show ?thesis by blast
qed

text \<open>
  Claim C7 as stated fails: the second application is observable, it moves
  \<^verbatim>\<open>updated_at\<close> from the time of the first to the time of the second.
\<close>

theorem upsert_fixture_second_application_restamps:
  "upsert_fixture fixture_1001_new 1 [] = Inr [row_1001_new] \<and>
   upsert_fixture fixture_1001_new 2 [row_1001_new] = Inr [row_1001_new\<lparr>fx_updated_at := 2\<rparr>] \<and>
   row_1001_new\<lparr>fx_updated_at := 2\<rparr> \<noteq> row_1001_new"
  using fixture_values_new fixture_values_at [OF fixture_values_new, of 2]
  by (simp add: upsert_fixture_def row_1001_new_def)

section \<open>Properties of the statistics upsert\<close>

lemma stats_values_old:
  "stats_values ''1001'' stats_old now =
     Inr \<lparr>st_fixture_id = ''1001'', st_home_xg = None, st_away_xg = None,
          st_home_possession = Some 55, st_away_possession = Some 45,
          st_home_shots = Some 10, st_away_shots = Some 8,
          st_home_shots_on_target = Some 4, st_away_shots_on_target = Some 3,
          st_home_corners = Some 5, st_away_corners = Some 2,
          st_home_fouls = Some 11, st_away_fouls = Some 9, st_updated_at = now\<rparr>"
  by (simp add: stats_values_def stats_old_def dict_get_def)

lemma stats_values_new:
  "stats_values ''1001'' stats_new now =
     Inr \<lparr>st_fixture_id = ''1001'', st_home_xg = None, st_away_xg = None,
          st_home_possession = Some 60, st_away_possession = Some 40,
          st_home_shots = Some 15, st_away_shots = Some 9,
          st_home_shots_on_target = Some 7, st_away_shots_on_target = Some 4,
          st_home_corners = Some 8, st_away_corners = Some 3,
          st_home_fouls = Some 14, st_away_fouls = Some 12, st_updated_at = now\<rparr>"
  by (simp add: stats_values_def stats_new_def dict_get_def)

text \<open>
  Claim C4. A statistics row exists for a fixture, and a record that differs in every
  statistic is upserted for it: possession and shots take the new values, while shots on
  target, corners and fouls keep the old ones.
\<close>

theorem upsert_fixture_stats_keeps_six_fields:
  "bind_err (upsert_fixture_stats ''1001'' stats_old 1 [])
     (upsert_fixture_stats ''1001'' stats_new 2) =
     Inr [\<lparr>st_fixture_id = ''1001'', st_home_xg = None, st_away_xg = None,
           st_home_possession = Some 60, st_away_possession = Some 40,
           st_home_shots = Some 15, st_away_shots = Some 9,
           st_home_shots_on_target = Some 4, st_away_shots_on_target = Some 3,
           st_home_corners = Some 5, st_away_corners = Some 2,
           st_home_fouls = Some 11, st_away_fouls = Some 9, st_updated_at = 2\<rparr>]"
  by (simp add: upsert_fixture_stats_def stats_values_old stats_values_new)

section \<open>Properties of the fixture query\<close>

lemma sorted_key_take: "sorted (map k (take n (sort_key k xs)))"
proof -
  have "sorted (map k (sort_key k xs))" by (rule sorted_sort_key)
  then have "sorted (take n (map k (sort_key k xs)))" by (rule sorted_wrt_take)
  then show ?thesis by (simp add: take_map)
qed

lemma in_take_sorted: "r \<in> set (take n (sort_key k (filter P xs))) \<Longrightarrow> r \<in> set xs \<and> P r"
proof -
  assume "r \<in> set (take n (sort_key k (filter P xs)))"
  then have "r \<in> set (sort_key k (filter P xs))" by (rule in_set_takeD)
  then show ?thesis by simp
qed

text \<open>
  Claim C9. For every combination of the four optional filters and every cap that is not
  negative, \<^verbatim>\<open>get_fixtures\<close> returns rows of the table that each satisfy every filter
  that was supplied (given and not empty), in ascending order of the scheduled timestamp
  (rows without one last), and no more rows than the cap.
\<close>

theorem get_fixtures_conjunction_sorted_capped:
  assumes "0 \<le> limit"
  shows "\<exists>rows. get_fixtures date_from date_to league_id status limit tbl = Inr rows \<and>
           (\<forall>r \<in> set rows.
              r \<in> set tbl \<and>
              (\<forall>f. date_from = Some f \<and> f \<noteq> [] \<longrightarrow> (\<exists>d. fx_match_date r = Some d \<and> f \<le> d)) \<and>
              (\<forall>t. date_to = Some t \<and> t \<noteq> [] \<longrightarrow> (\<exists>d. fx_match_date r = Some d \<and> d \<le> t)) \<and>
              (\<forall>l. league_id = Some l \<and> l \<noteq> [] \<longrightarrow> fx_league_id r = Some l) \<and>
              (\<forall>s. status = Some s \<and> s \<noteq> [] \<longrightarrow> fx_status r = Some s)) \<and>
           sorted (map match_date_key rows) \<and>
           int (length rows) \<le> limit"
proof -
  let ?P = "fixture_matches date_from date_to league_id status"
  let ?rows = "take (nat limit) (sort_key match_date_key (filter ?P tbl))"
  have ret: "get_fixtures date_from date_to league_id status limit tbl = Inr ?rows"
    using assms by (simp add: get_fixtures_def)
  have each: "r \<in> set tbl \<and> ?P r" if "r \<in> set ?rows" for r
    using that by (rule in_take_sorted)
  have preds:
    "(\<forall>f. date_from = Some f \<and> f \<noteq> [] \<longrightarrow> (\<exists>d. fx_match_date r = Some d \<and> f \<le> d)) \<and>
     (\<forall>t. date_to = Some t \<and> t \<noteq> [] \<longrightarrow> (\<exists>d. fx_match_date r = Some d \<and> d \<le> t)) \<and>
     (\<forall>l. league_id = Some l \<and> l \<noteq> [] \<longrightarrow> fx_league_id r = Some l) \<and>
     (\<forall>s. status = Some s \<and> s \<noteq> [] \<longrightarrow> fx_status r = Some s)" if "?P r" for r
    using that
    by (auto simp: fixture_matches_def from_ok_def to_ok_def league_ok_def status_ok_def
             split: option.splits if_splits)
  have srt: "sorted (map match_date_key ?rows)" by (rule sorted_key_take)
  have len: "int (length ?rows) \<le> limit" using assms by simp
  from ret each preds srt len show ?thesis by blast
qed

theorem get_fixtures_conjunction_sorted_capped_witness:
  "(0::int) \<le> 10 \<and>
   get_fixtures None None (Some ''39'') (Some ''NS'') 10 four_fixtures =
     Inr [fixture_row_of ''1004'' ''39'' ''2025-10-02'' ''NS'',
          fixture_row_of ''1001'' ''39'' ''2025-10-03'' ''NS''] \<and>
   sorted (map match_date_key
     [fixture_row_of ''1004'' ''39'' ''2025-10-02'' ''NS'',
      fixture_row_of ''1001'' ''39'' ''2025-10-03'' ''NS''])"
proof -
  have h: "(0::int) \<le> 10" by simp
  have ev: "get_fixtures None None (Some ''39'') (Some ''NS'') 10 four_fixtures =
     Inr [fixture_row_of ''1004'' ''39'' ''2025-10-02'' ''NS'',
          fixture_row_of ''1001'' ''39'' ''2025-10-03'' ''NS'']"
    by code_simp
  from get_fixtures_conjunction_sorted_capped [OF h, of None None "Some ''39''" "Some ''NS''" four_fixtures]
  obtain rows where
    "get_fixtures None None (Some ''39'') (Some ''NS'') 10 four_fixtures = Inr rows"
    and "sorted (map match_date_key rows)"
    by blast
  with ev h show ?thesis by simp
qed

section \<open>Properties of the stat extractor\<close>

lemma below_ten: "(k::nat) < 10 \<Longrightarrow> k \<in> {0, 1, 2, 3, 4, 5, 6, 7, 8, 9}"
  by auto

lemma digit_char_is_digit: "k < 10 \<Longrightarrow> is_digit (digit_char k)"
  by (drule below_ten) (auto simp: digit_char_def is_digit_def)

lemma digit_val_digit_char: "k < 10 \<Longrightarrow> digit_val (digit_char k) = int k"
  by (drule below_ten) (auto simp: digit_char_def digit_val_def)

lemma dec_digits_not_Nil: "dec_digits n \<noteq> []"
  by (subst dec_digits.simps) simp

lemma dec_digits_all_digits: "list_all is_digit (dec_digits n)"
proof (induction n rule: dec_digits.induct)
  case (1 n)
  show ?case
  proof (cases "n < 10")
    case True
    then show ?thesis by (subst dec_digits.simps) (simp add: digit_char_is_digit)
  next
    case False
    then have "list_all is_digit (dec_digits (n div 10))" by (rule "1.IH")
    moreover have "is_digit (digit_char (n mod 10))" by (rule digit_char_is_digit) simp
    ultimately show ?thesis using False by (subst dec_digits.simps) simp
  qed
qed

lemma digits_value_snoc:
  "is_digit c \<Longrightarrow> digits_value (xs @ [c]) = 10 * digits_value xs + digit_val c"
  by (simp add: digits_value_def)

lemma digits_value_dec_digits: "digits_value (dec_digits n) = int n"
proof (induction n rule: dec_digits.induct)
  case (1 n)
  show ?case
  proof (cases "n < 10")
    case True
    then show ?thesis
      by (subst dec_digits.simps) (simp add: digits_value_def digit_char_is_digit digit_val_digit_char)
  next
    case False
    then have "digits_value (dec_digits (n div 10)) = int (n div 10)" by (rule "1.IH")
    moreover have "is_digit (digit_char (n mod 10))" by (rule digit_char_is_digit) simp
    moreover have "digit_val (digit_char (n mod 10)) = int (n mod 10)"
      by (rule digit_val_digit_char) simp
    moreover have "int n = 10 * int (n div 10) + int (n mod 10)"
      by (simp add: zdiv_int zmod_int)
    ultimately show ?thesis using False
      by (subst dec_digits.simps) (simp add: digits_value_snoc)
  qed
qed

lemma digits_ok_all_digits: "xs \<noteq> [] \<Longrightarrow> list_all is_digit xs \<Longrightarrow> digits_ok xs"
proof (induction xs rule: digits_ok.induct)
  case 1
  then show ?case by simp
next
  case (2 c)
  then show ?case by simp
next
  case (3 c d r)
  then have "d \<noteq> CHR ''_''" by (auto simp: is_digit_def)
  with 3 show ?case by simp
qed

lemma dropWhile_none: "list_all (\<lambda>c. \<not> P c) xs \<Longrightarrow> dropWhile P xs = xs"
  by (cases xs) simp_all

lemma digit_not_space: "is_digit c \<Longrightarrow> \<not> is_space c"
  by (auto simp: is_digit_def is_space_def)

lemma strip_digits: "list_all is_digit xs \<Longrightarrow> strip xs = xs"
proof -
  assume a: "list_all is_digit xs"
  then have n: "list_all (\<lambda>c. \<not> is_space c) xs"
    by (simp add: list_all_iff digit_not_space)
  then have "list_all (\<lambda>c. \<not> is_space c) (rev xs)" by (simp add: list_all_iff)
  then have "dropWhile is_space (rev xs) = rev xs" by (rule dropWhile_none)
  with n show ?thesis by (simp add: strip_def dropWhile_none)
qed

lemma filter_all: "list_all P xs \<Longrightarrow> filter P xs = xs"
  by (induction xs) simp_all

lemma py_int_digits:
  assumes "xs \<noteq> []" and "list_all is_digit xs"
  shows "py_int xs = (if length xs \<le> max_str_digits then Some (digits_value xs) else None)"
proof -
  obtain c r where xs: "xs = c # r" using assms(1) by (cases xs) auto
  with assms(2) have d: "is_digit c" by simp
  then have sign: "c \<noteq> CHR ''+''" "c \<noteq> CHR ''-''" by (auto simp: is_digit_def)
  have s: "strip xs = xs" using assms(2) by (rule strip_digits)
  have ok: "digits_ok xs" using assms by (rule digits_ok_all_digits)
  have f: "filter is_digit xs = xs" using assms(2) by (rule filter_all)
  show ?thesis
    using d sign s ok f unfolding py_int_def xs by (simp add: Let_def)
qed

lemma py_int_dec_digits:
  "py_int (dec_digits n) =
     (if length (dec_digits n) \<le> max_str_digits then Some (int n) else None)"
  using py_int_digits [OF dec_digits_not_Nil dec_digits_all_digits, of n]
  by (simp add: digits_value_dec_digits)

lemma filter_percent_digits:
  "list_all is_digit xs \<Longrightarrow> filter (\<lambda>c. c \<noteq> CHR ''%'') xs = xs"
  by (induction xs) (auto simp: is_digit_def)

text \<open>
  The separators below the space are no whitespace for \<^verbatim>\<open>int\<close>, the next-line
  character and the no-break space are.
\<close>

lemma py_int_separators:
  "py_int [CHR 0x1F, CHR ''6'', CHR ''3''] = None \<and>
   py_int [CHR ''6'', CHR ''3'', CHR 0x1C] = None \<and>
   py_int [CHR 0xA0, CHR ''6'', CHR ''3'', CHR 0x85] = Some 63"
  by code_simp

lemma get_stat_first_match_aux:
  "get_stat (map JObj ds) t =
     (case find (\<lambda>d. dict_get d ''type'' = JStr t) ds of
        None \<Rightarrow> Inr JNull
      | Some d \<Rightarrow>
          (case dict_get d ''value'' of
             JStr s \<Rightarrow>
               if CHR ''%'' \<in> set s
               then (case py_int (filter (\<lambda>c. c \<noteq> CHR ''%'') s) of
                       None \<Rightarrow> Inl ValueError
                     | Some n \<Rightarrow> Inr (JInt n))
               else Inr (JStr s)
           | v \<Rightarrow> Inr v))"
  by (induction ds) (auto split: json.splits option.splits)

lemma get_stat_percent:
  "get_stat (JObj [(''type'', JStr t), (''value'', JStr (dec_digits n @ ''%''))] # rest) t =
     (if length (dec_digits n) \<le> max_str_digits then Inr (JInt (int n)) else Inl ValueError)"
  by (simp add: dict_get_def filter_percent_digits [OF dec_digits_all_digits] py_int_dec_digits)

text \<open>
  Claim C5, as the code has it. Over a list of dict entries \<^verbatim>\<open>get_stat\<close> looks at the
  first entry whose \<^verbatim>\<open>type\<close> is the wanted one. With no such entry it returns
  \<^verbatim>\<open>None\<close> and raises nothing. A value of that entry which is a string holding a
  percent sign is stripped of every percent sign and parsed by \<^verbatim>\<open>int\<close>: the integer
  is returned, and a \<^verbatim>\<open>ValueError\<close> is raised when the rest is not an integer
  literal or has more digits than \<^verbatim>\<open>int\<close> accepts. Every other value is returned
  unchanged. In particular the decimal digits of a natural number followed by a percent
  sign give that number when they are at most 4300, and a \<^verbatim>\<open>ValueError\<close> beyond.
\<close>

theorem get_stat_first_match:
  "get_stat (map JObj ds) t =
     (case find (\<lambda>d. dict_get d ''type'' = JStr t) ds of
        None \<Rightarrow> Inr JNull
      | Some d \<Rightarrow>
          (case dict_get d ''value'' of
             JStr s \<Rightarrow>
               if CHR ''%'' \<in> set s
               then (case py_int (filter (\<lambda>c. c \<noteq> CHR ''%'') s) of
                       None \<Rightarrow> Inl ValueError
                     | Some n \<Rightarrow> Inr (JInt n))
               else Inr (JStr s)
           | v \<Rightarrow> Inr v)) \<and>
   get_stat (JObj [(''type'', JStr t), (''value'', JStr (dec_digits n @ ''%''))] # rest) t =
     (if length (dec_digits n) \<le> max_str_digits then Inr (JInt (int n)) else Inl ValueError)"
  using get_stat_first_match_aux [of ds t] get_stat_percent [of t n rest]
  by (rule conjI)

text \<open>
  Claim C5 as stated fails: for the percentage string \<^verbatim>\<open>63.5%\<close> the extractor returns
  no integer, it raises \<^verbatim>\<open>ValueError\<close>.
\<close>

theorem get_stat_raises_on_fractional_percentage:
  "get_stat [JObj [(''type'', JStr ''Ball Possession''), (''value'', JStr ''63.5%'')]]
     ''Ball Possession'' = Inl ValueError"
  by code_simp

section \<open>Properties of the record mapper\<close>

lemma nested_default:
  "dict_or_absent d k \<Longrightarrow> dict_get_default d k (JObj []) = JObj (nested d k)"
  by (auto simp: dict_or_absent_def nested_def dict_get_default_def split: option.splits json.splits)

lemma attr_only_Inr [simp]: "attr_only (Inr x)"
  by (simp add: attr_only_def)

lemma attr_only_py_get [simp]: "attr_only (py_get v k)"
  by (cases v) (simp_all add: attr_only_def)

lemma attr_only_py_get_default [simp]: "attr_only (py_get_default v k dflt)"
  by (cases v) (simp_all add: attr_only_def)

lemma attr_only_bind: "attr_only m \<Longrightarrow> (\<And>x. attr_only (f x)) \<Longrightarrow> attr_only (bind_err m f)"
  by (cases m) (simp_all add: attr_only_def)

lemma attr_only_fixture_obj: "attr_only (fixture_obj fixture league teams goals)"
  unfolding fixture_obj_def by (intro attr_only_bind attr_only_py_get attr_only_py_get_default attr_only_Inr)

lemma attr_only_map_fixture: "attr_only (map_fixture p)"
  unfolding map_fixture_def
  by (intro attr_only_bind attr_only_py_get_default attr_only_fixture_obj)

lemma map_fixture_error: "map_fixture p = Inl err \<Longrightarrow> err = AttributeError"
  using attr_only_map_fixture [of p] by (simp add: attr_only_def)

lemma py_get_Inr: "py_get v k = Inr x \<Longrightarrow> \<exists>d. v = JObj d"
  by (cases v) simp_all

lemma py_get_default_Inr: "py_get_default v k dflt = Inr x \<Longrightarrow> \<exists>d. v = JObj d \<and> x = dict_get_default d k dflt"
  by (cases v) simp_all

lemma default_is_dict:
  "dict_get_default d k (JObj []) = JObj x \<Longrightarrow> dict_or_absent d k \<and> nested d k = x"
  by (auto simp: dict_or_absent_def nested_def dict_get_default_def split: option.splits json.splits)

lemma fixture_obj_Inr_shape:
  assumes "fixture_obj F L T G = Inr obj"
  shows "\<exists>fx lg tm gl sta ven hm aw.
           F = JObj fx \<and> L = JObj lg \<and> T = JObj tm \<and> G = JObj gl \<and>
           dict_get_default fx ''status'' (JObj []) = JObj sta \<and>
           dict_get_default fx ''venue'' (JObj []) = JObj ven \<and>
           dict_get_default tm ''home'' (JObj []) = JObj hm \<and>
           dict_get_default tm ''away'' (JObj []) = JObj aw"
proof -
  from assms obtain x1 where a1: "py_get F ''id'' = Inr x1"
    unfolding fixture_obj_def bind_err_Inr_iff by blast
  from assms obtain x2 where a2: "py_get L ''id'' = Inr x2"
    unfolding fixture_obj_def bind_err_Inr_iff by blast
  from assms obtain h x3 where a3: "py_get_default T ''home'' (JObj []) = Inr h" "py_get h ''id'' = Inr x3"
    unfolding fixture_obj_def bind_err_Inr_iff by blast
  from assms obtain a x4 where a4: "py_get_default T ''away'' (JObj []) = Inr a" "py_get a ''id'' = Inr x4"
    unfolding fixture_obj_def bind_err_Inr_iff by blast
  from assms obtain s x6 where a6: "py_get_default F ''status'' (JObj []) = Inr s"
      "py_get_default s ''short'' (JStr ''NS'') = Inr x6"
    unfolding fixture_obj_def bind_err_Inr_iff by blast
  from assms obtain x7 where a7: "py_get G ''home'' = Inr x7"
    unfolding fixture_obj_def bind_err_Inr_iff by blast
  from assms obtain v x9 where a9: "py_get_default F ''venue'' (JObj []) = Inr v" "py_get v ''name'' = Inr x9"
    unfolding fixture_obj_def bind_err_Inr_iff by blast
  from a1 obtain fx where F: "F = JObj fx" by (blast dest: py_get_Inr)
  from a2 obtain lg where L: "L = JObj lg" by (blast dest: py_get_Inr)
  from a7 obtain gl where G: "G = JObj gl" by (blast dest: py_get_Inr)
  from a3(1) obtain tm where T: "T = JObj tm" by (blast dest: py_get_default_Inr)
  from a3 T obtain hm where hm: "dict_get_default tm ''home'' (JObj []) = JObj hm"
    by (auto dest: py_get_Inr)
  from a4 T obtain aw where aw: "dict_get_default tm ''away'' (JObj []) = JObj aw"
    by (auto dest: py_get_Inr)
  from a6 F obtain sta where sta: "dict_get_default fx ''status'' (JObj []) = JObj sta"
    by (auto dest: py_get_default_Inr)
  from a9 F obtain ven where ven: "dict_get_default fx ''venue'' (JObj []) = JObj ven"
    by (auto dest: py_get_Inr)
  from F L T G hm aw sta ven show ?thesis by blast
qed

lemma map_fixture_Inr_shape:
  assumes "map_fixture (JObj d) = Inr obj"
  shows "payload_ok d"
proof -
  from assms have "fixture_obj (dict_get_default d ''fixture'' (JObj []))
      (dict_get_default d ''league'' (JObj [])) (dict_get_default d ''teams'' (JObj []))
      (dict_get_default d ''goals'' (JObj [])) = Inr obj"
    by (simp add: map_fixture_def)
  from fixture_obj_Inr_shape [OF this] obtain fx lg tm gl sta ven hm aw where
    s: "dict_get_default d ''fixture'' (JObj []) = JObj fx"
       "dict_get_default d ''league'' (JObj []) = JObj lg"
       "dict_get_default d ''teams'' (JObj []) = JObj tm"
       "dict_get_default d ''goals'' (JObj []) = JObj gl"
       "dict_get_default fx ''status'' (JObj []) = JObj sta"
       "dict_get_default fx ''venue'' (JObj []) = JObj ven"
       "dict_get_default tm ''home'' (JObj []) = JObj hm"
       "dict_get_default tm ''away'' (JObj []) = JObj aw"
    by blast
  from s(1) have f: "dict_or_absent d ''fixture''" "nested d ''fixture'' = fx"
    by (auto dest: default_is_dict)
  from s(3) have t: "dict_or_absent d ''teams''" "nested d ''teams'' = tm"
    by (auto dest: default_is_dict)
  from s(2) s(4) s(5) s(6) s(7) s(8) f t show ?thesis
    unfolding payload_ok_def by (auto dest: default_is_dict)
qed

lemma map_fixture_objects:
  assumes "dict_get_default d ''fixture'' (JObj []) = JObj fx"
    and "dict_get_default d ''league'' (JObj []) = JObj lg"
    and "dict_get_default d ''teams'' (JObj []) = JObj tm"
    and "dict_get_default d ''goals'' (JObj []) = JObj gl"
    and "dict_get_default fx ''status'' (JObj []) = JObj sta"
    and "dict_get_default fx ''venue'' (JObj []) = JObj ven"
    and "dict_get_default tm ''home'' (JObj []) = JObj hm"
    and "dict_get_default tm ''away'' (JObj []) = JObj aw"
  shows "map_fixture (JObj d) =
     Inr [(''id'', JStr (py_str (dict_get fx ''id''))),
          (''league_id'', JStr (py_str (dict_get lg ''id''))),
          (''home_team_id'', JStr (py_str (dict_get hm ''id''))),
          (''away_team_id'', JStr (py_str (dict_get aw ''id''))),
          (''match_date'', dict_get fx ''date''),
          (''status'', dict_get_default sta ''short'' (JStr ''NS'')),
          (''home_score'', dict_get gl ''home''),
          (''away_score'', dict_get gl ''away''),
          (''venue'', dict_get ven ''name''),
          (''referee_id'', dict_get fx ''referee'')]"
  using assms by (simp add: map_fixture_def fixture_obj_def)

lemma dict_get_present: "map_of d k = Some v \<Longrightarrow> dict_get d k = v"
  by (simp add: dict_get_def)

lemma map_fixture_not_dict: "(\<And>d. p \<noteq> JObj d) \<Longrightarrow> map_fixture p = Inl AttributeError"
  by (cases p) (auto simp: map_fixture_def)

text \<open>
  Claim C6, as the code has it. When the payload is a dict in which \<^verbatim>\<open>fixture\<close>,
  \<^verbatim>\<open>league\<close>, \<^verbatim>\<open>teams\<close> and \<^verbatim>\<open>goals\<close>, and inside them \<^verbatim>\<open>status\<close>,
  \<^verbatim>\<open>venue\<close>, \<^verbatim>\<open>home\<close> and \<^verbatim>\<open>away\<close>, are each absent or a dict, the mapping
  step raises nothing: date, scores, venue and referee are what the nested objects hold,
  \<^verbatim>\<open>None\<close> where the object or the key is absent; status is the short code, \<^verbatim>\<open>NS\<close>
  where absent; and each of the four ids that is present and not \<^verbatim>\<open>None\<close> is mapped to
  its \<^verbatim>\<open>str\<close>. Every other payload, one in which such a key holds something that is
  not a dict or one that is no dict itself, makes the mapping step raise
  \<^verbatim>\<open>AttributeError\<close>.
\<close>

theorem map_fixture_total_on_dict_shaped_payloads:
  "(payload_ok d \<longrightarrow>
     (\<exists>fid lid hid aid.
        map_fixture (JObj d) =
          Inr [(''id'', JStr fid),
               (''league_id'', JStr lid),
               (''home_team_id'', JStr hid),
               (''away_team_id'', JStr aid),
               (''match_date'', dict_get (nested d ''fixture'') ''date''),
               (''status'',
                  dict_get_default (nested (nested d ''fixture'') ''status'') ''short'' (JStr ''NS'')),
               (''home_score'', dict_get (nested d ''goals'') ''home''),
               (''away_score'', dict_get (nested d ''goals'') ''away''),
               (''venue'', dict_get (nested (nested d ''fixture'') ''venue'') ''name''),
               (''referee_id'', dict_get (nested d ''fixture'') ''referee'')] \<and>
        (\<forall>v. map_of (nested d ''fixture'') ''id'' = Some v \<and> v \<noteq> JNull \<longrightarrow> fid = py_str v) \<and>
        (\<forall>v. map_of (nested d ''league'') ''id'' = Some v \<and> v \<noteq> JNull \<longrightarrow> lid = py_str v) \<and>
        (\<forall>v. map_of (nested (nested d ''teams'') ''home'') ''id'' = Some v \<and> v \<noteq> JNull
               \<longrightarrow> hid = py_str v) \<and>
        (\<forall>v. map_of (nested (nested d ''teams'') ''away'') ''id'' = Some v \<and> v \<noteq> JNull
               \<longrightarrow> aid = py_str v))) \<and>
   (\<not> payload_ok d \<longrightarrow> map_fixture (JObj d) = Inl AttributeError) \<and>
   ((\<forall>x. p \<noteq> JObj x) \<longrightarrow> map_fixture p = Inl AttributeError)"
proof (intro conjI impI)
  assume ok: "payload_ok d"
  let ?fx = "nested d ''fixture''" and ?tm = "nested d ''teams''"
  from ok have h:
    "dict_get_default d ''fixture'' (JObj []) = JObj ?fx"
    "dict_get_default d ''league'' (JObj []) = JObj (nested d ''league'')"
    "dict_get_default d ''teams'' (JObj []) = JObj ?tm"
    "dict_get_default d ''goals'' (JObj []) = JObj (nested d ''goals'')"
    "dict_get_default ?fx ''status'' (JObj []) = JObj (nested ?fx ''status'')"
    "dict_get_default ?fx ''venue'' (JObj []) = JObj (nested ?fx ''venue'')"
    "dict_get_default ?tm ''home'' (JObj []) = JObj (nested ?tm ''home'')"
    "dict_get_default ?tm ''away'' (JObj []) = JObj (nested ?tm ''away'')"
    unfolding payload_ok_def by (simp_all add: nested_default)
  have "map_fixture (JObj d) =
     Inr [(''id'', JStr (py_str (dict_get ?fx ''id''))),
          (''league_id'', JStr (py_str (dict_get (nested d ''league'') ''id''))),
          (''home_team_id'', JStr (py_str (dict_get (nested ?tm ''home'') ''id''))),
          (''away_team_id'', JStr (py_str (dict_get (nested ?tm ''away'') ''id''))),
          (''match_date'', dict_get ?fx ''date''),
          (''status'', dict_get_default (nested ?fx ''status'') ''short'' (JStr ''NS'')),
          (''home_score'', dict_get (nested d ''goals'') ''home''),
          (''away_score'', dict_get (nested d ''goals'') ''away''),
          (''venue'', dict_get (nested ?fx ''venue'') ''name''),
          (''referee_id'', dict_get ?fx ''referee'')]"
    by (rule map_fixture_objects [OF h])
  then show "\<exists>fid lid hid aid.
        map_fixture (JObj d) =
          Inr [(''id'', JStr fid),
               (''league_id'', JStr lid),
               (''home_team_id'', JStr hid),
               (''away_team_id'', JStr aid),
               (''match_date'', dict_get (nested d ''fixture'') ''date''),
               (''status'',
                  dict_get_default (nested (nested d ''fixture'') ''status'') ''short'' (JStr ''NS'')),
               (''home_score'', dict_get (nested d ''goals'') ''home''),
               (''away_score'', dict_get (nested d ''goals'') ''away''),
               (''venue'', dict_get (nested (nested d ''fixture'') ''venue'') ''name''),
               (''referee_id'', dict_get (nested d ''fixture'') ''referee'')] \<and>
        (\<forall>v. map_of (nested d ''fixture'') ''id'' = Some v \<and> v \<noteq> JNull \<longrightarrow> fid = py_str v) \<and>
        (\<forall>v. map_of (nested d ''league'') ''id'' = Some v \<and> v \<noteq> JNull \<longrightarrow> lid = py_str v) \<and>
        (\<forall>v. map_of (nested (nested d ''teams'') ''home'') ''id'' = Some v \<and> v \<noteq> JNull
               \<longrightarrow> hid = py_str v) \<and>
        (\<forall>v. map_of (nested (nested d ''teams'') ''away'') ''id'' = Some v \<and> v \<noteq> JNull
               \<longrightarrow> aid = py_str v)"
    by (auto simp: dict_get_present)
next
  assume bad: "\<not> payload_ok d"
  show "map_fixture (JObj d) = Inl AttributeError"
  proof (cases "map_fixture (JObj d)")
    case (Inl err)
    then show ?thesis by (simp add: map_fixture_error)
  next
    case (Inr obj)
    then have "payload_ok d" by (rule map_fixture_Inr_shape)
    with bad show ?thesis by simp
  qed
next
  assume "\<forall>x. p \<noteq> JObj x"
  then show "map_fixture p = Inl AttributeError" by (simp add: map_fixture_not_dict)
qed

theorem map_fixture_total_on_dict_shaped_payloads_witness:
  "payload_ok partial_payload \<and>
   (\<exists>lid hid aid.
      map_fixture (JObj partial_payload) =
        Inr [(''id'', JStr ''1001''),
             (''league_id'', JStr lid),
             (''home_team_id'', JStr hid),
             (''away_team_id'', JStr aid),
             (''match_date'', JStr ''2025-10-01T19:00:00+00:00''),
             (''status'', JStr ''NS''),
             (''home_score'', JInt 2),
             (''away_score'', JNull),
             (''venue'', JNull),
             (''referee_id'', JNull)]) \<and>
   \<not> payload_ok null_home_payload \<and>
   map_fixture (JObj null_home_payload) = Inl AttributeError \<and>
   (\<forall>x. JList [] \<noteq> JObj x) \<and>
   map_fixture (JList []) = Inl AttributeError"
proof -
  have ok: "payload_ok partial_payload" by code_simp
  have bad: "\<not> payload_ok null_home_payload" by code_simp
  have nd: "\<forall>x. JList [] \<noteq> JObj x" by simp
  have fields:
    "map_of (nested partial_payload ''fixture'') ''id'' = Some (JInt 1001) \<and> JInt 1001 \<noteq> JNull"
    "py_str (JInt 1001) = ''1001''"
    "dict_get (nested partial_payload ''fixture'') ''date'' = JStr ''2025-10-01T19:00:00+00:00''"
    "dict_get_default (nested (nested partial_payload ''fixture'') ''status'') ''short'' (JStr ''NS'')
       = JStr ''NS''"
    "dict_get (nested partial_payload ''goals'') ''home'' = JInt 2"
    "dict_get (nested partial_payload ''goals'') ''away'' = JNull"
    "dict_get (nested (nested partial_payload ''fixture'') ''venue'') ''name'' = JNull"
    "dict_get (nested partial_payload ''fixture'') ''referee'' = JNull"
    by code_simp+
  note t1 = map_fixture_total_on_dict_shaped_payloads [of partial_payload "JList []"]
  note t2 = map_fixture_total_on_dict_shaped_payloads [of null_home_payload "JList []"]
  from t1 ok fields have a: "\<exists>lid hid aid.
      map_fixture (JObj partial_payload) =
        Inr [(''id'', JStr ''1001''),
             (''league_id'', JStr lid),
             (''home_team_id'', JStr hid),
             (''away_team_id'', JStr aid),
             (''match_date'', JStr ''2025-10-01T19:00:00+00:00''),
             (''status'', JStr ''NS''),
             (''home_score'', JInt 2),
             (''away_score'', JNull),
             (''venue'', JNull),
             (''referee_id'', JNull)]"
    by (metis (no_types, lifting))
  from t2 bad have b: "map_fixture (JObj null_home_payload) = Inl AttributeError" by blast
  from t2 nd have c: "map_fixture (JList []) = Inl AttributeError" by blast
  from ok a bad b nd c show ?thesis by blast
qed

text \<open>
  Claim C6 as stated fails: a payload whose \<^verbatim>\<open>fixture\<close> is \<^verbatim>\<open>null\<close> makes the
  mapping step raise.
\<close>

theorem map_fixture_raises_on_null_object:
  "map_fixture (JObj [(''fixture'', JNull)]) = Inl AttributeError"
  by (simp add: map_fixture_def fixture_obj_def dict_get_def dict_get_default_def)

section \<open>Properties of the fixture window sync\<close>

lemma save_fixture_mapping_error:
  assumes "map_fixture bad = Inl err"
  shows "save_fixture e bad st = (Inl err, st)"
proof (cases "py_get_default bad ''fixture'' (JObj [])")
  case (Inl x)
  with assms show ?thesis by (simp add: save_fixture_def map_fixture_def)
next
  case fx: (Inr fixture)
  show ?thesis
  proof (cases "py_get_default bad ''league'' (JObj [])")
    case (Inl x)
    with assms fx show ?thesis by (simp add: save_fixture_def map_fixture_def)
  next
    case lg: (Inr league)
    show ?thesis
    proof (cases "py_get_default bad ''teams'' (JObj [])")
      case (Inl x)
      with assms fx lg show ?thesis by (simp add: save_fixture_def map_fixture_def)
    next
      case tm: (Inr tms)
      show ?thesis
      proof (cases "py_get_default bad ''goals'' (JObj [])")
        case (Inl x)
        with assms fx lg tm show ?thesis by (simp add: save_fixture_def map_fixture_def)
      next
        case (Inr goals)
        with assms fx lg tm show ?thesis by (simp add: save_fixture_def map_fixture_def)
      qed
    qed
  qed
qed

lemma save_fixtures_append:
  "save_fixtures e (xs @ ys) n st =
     (case save_fixtures e xs n st of
        (None, n1, st1) \<Rightarrow> save_fixtures e ys n1 st1
      | (Some err, n1, st1) \<Rightarrow> (Some err, n1, st1))"
  by (induction xs arbitrary: n st) (auto split: prod.splits sum.splits option.splits)

lemma save_fixtures_count:
  "fst (save_fixtures e xs n st) = None \<Longrightarrow> fst (snd (save_fixtures e xs n st)) = n + length xs"
  by (induction xs arbitrary: n st) (auto split: prod.splits sum.splits)

lemma sync_league_mapping_error:
  assumes "league_fixtures e league_id date_from date_to = Inr (done @ bad # rest)"
    and "fst (save_fixtures e done n st) = None"
    and "map_fixture bad = Inl err"
  shows "sync_league e date_from date_to league_id (n, st) =
           (n + length done, snd (snd (save_fixtures e done n st)))"
proof -
  obtain n1 st1 where r: "save_fixtures e done n st = (None, n1, st1)"
    using assms(2) by (cases "save_fixtures e done n st") auto
  have n1: "n1 = n + length done"
    using save_fixtures_count [OF assms(2)] r by simp
  have "save_fixtures e (done @ bad # rest) n st = (Some err, n1, st1)"
    using r save_fixture_mapping_error [OF assms(3)]
    by (simp add: save_fixtures_append)
  with assms(1) r n1 show ?thesis by (simp add: sync_league_def)
qed

text \<open>
  Claim C2, as the code has it. The \<^verbatim>\<open>try\<close> of \<^verbatim>\<open>sync_fixtures\<close> encloses the whole
  batch of a league. When the run comes to a league with counter \<open>n\<close> and store \<open>st\<close>,
  and in the league's batch the fixtures before one whose mapping raises are all saved,
  the batch ends at that one: the counter has grown by the number of fixtures before it,
  the store is the one they left, the fixtures after it are not looked at, and the run
  goes on with the later leagues from there.
\<close>

theorem sync_fixtures_stops_league_at_mapping_error:
  assumes "foldl (\<lambda>acc l. sync_league e date_from date_to l acc) (0, st0) earlier = (n, st)"
    and "league_fixtures e league_id date_from date_to = Inr (done @ bad # rest)"
    and "fst (save_fixtures e done n st) = None"
    and "map_fixture bad = Inl err"
  shows "sync_fixtures e date_from date_to (Some (earlier @ league_id # later)) st0 =
           foldl (\<lambda>acc l. sync_league e date_from date_to l acc)
             (n + length done, snd (snd (save_fixtures e done n st))) later"
  using assms(1) sync_league_mapping_error [OF assms(2) assms(3) assms(4)]
  by (simp add: sync_fixtures_def)

theorem sync_fixtures_stops_league_at_mapping_error_witness:
  "foldl (\<lambda>acc l. sync_league example_env ''2025-10-01'' ''2025-10-07'' l acc) (0, empty_store) [] =
     (0, empty_store) \<and>
   league_fixtures example_env ''39'' ''2025-10-01'' ''2025-10-07'' =
     Inr ([fixture_payload 1 33 34, fixture_payload 2 40 50] @ malformed_payload #
          [fixture_payload 4 33 40, fixture_payload 5 34 50]) \<and>
   fst (save_fixtures example_env [fixture_payload 1 33 34, fixture_payload 2 40 50] 0 empty_store) = None \<and>
   map_fixture malformed_payload = Inl AttributeError \<and>
   sync_fixtures example_env ''2025-10-01'' ''2025-10-07'' (Some [''39'']) empty_store =
     (2, snd (snd (save_fixtures example_env
                    [fixture_payload 1 33 34, fixture_payload 2 40 50] 0 empty_store))) \<and>
   map fx_id (db_fixtures (snd (snd (save_fixtures example_env
                    [fixture_payload 1 33 34, fixture_payload 2 40 50] 0 empty_store)))) =
     [''1'', ''2'']"
proof -
  have h0: "foldl (\<lambda>acc l. sync_league example_env ''2025-10-01'' ''2025-10-07'' l acc)
              (0, empty_store) [] = (0, empty_store)"
    by simp
  have h1: "league_fixtures example_env ''39'' ''2025-10-01'' ''2025-10-07'' =
     Inr ([fixture_payload 1 33 34, fixture_payload 2 40 50] @ malformed_payload #
          [fixture_payload 4 33 40, fixture_payload 5 34 50])"
    by (simp add: league_fixtures_def example_env_def five_fixtures_def dict_get_default_def)
  have h2: "fst (save_fixtures example_env
                   [fixture_payload 1 33 34, fixture_payload 2 40 50] 0 empty_store) = None"
    by code_simp
  have h3: "map_fixture malformed_payload = Inl AttributeError"
    by code_simp
  have ids: "map fx_id (db_fixtures (snd (snd (save_fixtures example_env
                    [fixture_payload 1 33 34, fixture_payload 2 40 50] 0 empty_store)))) =
     [''1'', ''2'']"
    by code_simp
  from sync_fixtures_stops_league_at_mapping_error [OF h0 h1 h2 h3, of "[]"]
  have "sync_fixtures example_env ''2025-10-01'' ''2025-10-07'' (Some [''39'']) empty_store =
     (2, snd (snd (save_fixtures example_env
                    [fixture_payload 1 33 34, fixture_payload 2 40 50] 0 empty_store)))"
    by simp
  with h0 h1 h2 h3 ids show ?thesis by blast
qed

text \<open>
  Claim C2 as stated fails: with the third of five fixtures malformed, the run counts two
  and the store holds the first two fixtures, not the fourth and fifth.
\<close>

theorem sync_fixtures_skips_rest_of_league:
  "fst (sync_fixtures example_env ''2025-10-01'' ''2025-10-07'' (Some [''39'']) empty_store) = 2 \<and>
   map fx_id (db_fixtures
     (snd (sync_fixtures example_env ''2025-10-01'' ''2025-10-07'' (Some [''39'']) empty_store))) =
     [''1'', ''2'']"
  by code_simp

text \<open>
  Claim C1. Team \<^verbatim>\<open>33\<close> has its logo in owned storage; saving the team as it stands
  in a fixture payload puts the upstream URL back (and clears the venue).
\<close>

theorem save_team_reverts_owned_logo:
  "fst (save_team example_env (team_payload 33) mirrored_store) = Inr () \<and>
   map tm_logo_url (db_teams (snd (save_team example_env (team_payload 33) mirrored_store))) =
     [Some ''https://media.api-sports.io/football/teams/33.png''] \<and>
   map tm_venue (db_teams (snd (save_team example_env (team_payload 33) mirrored_store))) = [None]"
  by code_simp

section \<open>Properties of the fixture stats sync\<close>

lemma parse_fixture_stats_empty: "parse_fixture_stats (JList []) = Inr null_stats"
  by (simp add: parse_fixture_stats_def team_statistics_def get_stat_of_def null_stats_def)

lemma stats_values_null: "stats_values fixture_id null_stats now = Inr (null_stats_row fixture_id now)"
  by (simp add: stats_values_def null_stats_def dict_get_def null_stats_row_def)

lemma sync_stats_of_empty:
  assumes "fetch_statistics e fixture_id = Inr (JObj data)"
    and "dict_get_default data ''response'' (JList []) = JList []"
  shows "sync_stats_of e fixture_id st =
     (Inr (), st\<lparr>db_fixture_stats :=
                   upsert_stats_rows (null_stats_row fixture_id (clock e (db_stmts st)))
                     (db_fixture_stats st),
                 db_stmts := Suc (db_stmts st)\<rparr>)"
  using assms
  by (simp add: sync_stats_of_def parse_fixture_stats_empty client_upsert_fixture_stats_def
        upsert_fixture_stats_def stats_values_null)

lemma stats_loop_append:
  "stats_loop e (xs @ ys) n st =
     (case stats_loop e xs n st of (n1, st1) \<Rightarrow> stats_loop e ys n1 st1)"
  by (induction xs arbitrary: n st) (auto split: prod.splits sum.splits)

lemma stats_loop_mono: "n \<le> fst (stats_loop e xs n st)"
proof (induction xs arbitrary: n st)
  case Nil
  then show ?case by simp
next
  case (Cons x xs)
  obtain r st' where s: "sync_stats_of e x st = (r, st')" by (cases "sync_stats_of e x st")
  show ?case
  proof (cases r)
    case (Inl err)
    with s Cons [of n st'] show ?thesis by simp
  next
    case (Inr u)
    with s Cons [of "Suc n" st'] show ?thesis by simp
  qed
qed

text \<open>
  Claim C10. When the statistics request for a fixture id succeeds and its response list
  is empty, the parsed record has \<^verbatim>\<open>None\<close> in every field, and
  \<^verbatim>\<open>sync_fixture_stats\<close>, when it comes to that id, upserts that record for it, adds
  one to the counter and goes on with the remaining ids; the count it returns is at least
  one more than the count it had before that id.
\<close>

theorem sync_fixture_stats_counts_empty_response:
  assumes "fetch_statistics e fixture_id = Inr (JObj data)"
    and "dict_get_default data ''response'' (JList []) = JList []"
  shows "parse_fixture_stats (JList []) = Inr null_stats \<and>
         (\<exists>n1 st1. stats_loop e before 0 st = (n1, st1) \<and>
            sync_fixture_stats e (before @ fixture_id # rest) st =
              stats_loop e rest (Suc n1)
                (st1\<lparr>db_fixture_stats :=
                       upsert_stats_rows (null_stats_row fixture_id (clock e (db_stmts st1)))
                         (db_fixture_stats st1),
                     db_stmts := Suc (db_stmts st1)\<rparr>) \<and>
            Suc n1 \<le> fst (sync_fixture_stats e (before @ fixture_id # rest) st))"
proof -
  obtain n1 st1 where b: "stats_loop e before 0 st = (n1, st1)"
    by (cases "stats_loop e before 0 st")
  let ?st2 = "st1\<lparr>db_fixture_stats :=
                   upsert_stats_rows (null_stats_row fixture_id (clock e (db_stmts st1)))
                     (db_fixture_stats st1),
                 db_stmts := Suc (db_stmts st1)\<rparr>"
  have run: "sync_fixture_stats e (before @ fixture_id # rest) st = stats_loop e rest (Suc n1) ?st2"
    using b sync_stats_of_empty [OF assms, of st1]
    by (simp add: sync_fixture_stats_def stats_loop_append)
  have "Suc n1 \<le> fst (stats_loop e rest (Suc n1) ?st2)" by (rule stats_loop_mono)
  with run have "Suc n1 \<le> fst (sync_fixture_stats e (before @ fixture_id # rest) st)" by simp
  with b run parse_fixture_stats_empty show ?thesis by blast
qed

theorem sync_fixture_stats_counts_empty_response_witness:
  "fetch_statistics example_env ''1001'' = Inr (JObj [(''response'', JList [])]) \<and>
   dict_get_default [(''response'', JList [])] ''response'' (JList []) = JList [] \<and>
   fst (sync_fixture_stats example_env [''1001''] empty_store) = 1 \<and>
   db_fixture_stats (snd (sync_fixture_stats example_env [''1001''] empty_store)) =
     [null_stats_row ''1001'' 0]"
proof -
  have h1: "fetch_statistics example_env ''1001'' = Inr (JObj [(''response'', JList [])])"
    by (simp add: example_env_def)
  have h2: "dict_get_default [(''response'', JList [])] ''response'' (JList []) = JList []"
    by (simp add: dict_get_default_def)
  from sync_fixture_stats_counts_empty_response [OF h1 h2, of "[]" empty_store "[]"]
  have "Suc 0 \<le> fst (sync_fixture_stats example_env [''1001''] empty_store)"
    by auto
  moreover have "fst (sync_fixture_stats example_env [''1001''] empty_store) \<le> 1 \<and>
     db_fixture_stats (snd (sync_fixture_stats example_env [''1001''] empty_store)) =
       [null_stats_row ''1001'' 0]"
    by code_simp
  ultimately show ?thesis using h1 h2 by simp
qed

section \<open>Properties of the logo backfill\<close>

lemma upload_file_cases:
  "upload_file e file_data object_key content_type st = (r, st') \<Longrightarrow>
   st' = st \<or>
   (put_object_ok e object_key \<and>
    st' = st\<lparr>r2_bucket := (r2_bucket st)
                  (object_key \<mapsto> (content_type_for object_key content_type, file_data)),
              r2_uploads := r2_uploads st @ [object_key]\<rparr>)"
  by (auto simp: upload_file_def split: if_splits)

lemma upload_team_logo_cases:
  assumes "upload_team_logo e team_id logo_url st = (r, st')"
  shows "st' = st \<or>
     (\<not> file_exists e (''teams/'' @ team_id @ ''.png'') st \<and>
      (\<exists>obj. st' = st\<lparr>r2_bucket := (r2_bucket st)((''teams/'' @ team_id @ ''.png'') \<mapsto> obj),
                       r2_uploads := r2_uploads st @ [''teams/'' @ team_id @ ''.png'']\<rparr>))"
proof (cases "file_exists e (''teams/'' @ team_id @ ''.png'') st")
  case True
  with assms show ?thesis by (simp add: upload_team_logo_def)
next
  case False
  show ?thesis
  proof (cases "download e logo_url")
    case (Inl err)
    with assms False show ?thesis by (simp add: upload_team_logo_def upload_from_url_def)
  next
    case (Inr resp)
    with assms False have
      "upload_file e (snd resp) (''teams/'' @ team_id @ ''.png'') (fst resp) st = (r, st')"
      by (simp add: upload_team_logo_def upload_from_url_def)
    from upload_file_cases [OF this] False show ?thesis by blast
  qed
qed

lemma upload_team_logo_keeps_uploads_ok:
  assumes "\<forall>k. head_object_ok e k" and "uploads_ok st"
    and "upload_team_logo e team_id logo_url st = (r, st')"
  shows "uploads_ok st'"
proof -
  let ?k = "''teams/'' @ team_id @ ''.png''"
  from upload_team_logo_cases [OF assms(3)]
  show ?thesis
  proof
    assume "st' = st"
    with assms(2) show ?thesis by simp
  next
    assume "\<not> file_exists e ?k st \<and>
      (\<exists>obj. st' = st\<lparr>r2_bucket := (r2_bucket st)(?k \<mapsto> obj),
                       r2_uploads := r2_uploads st @ [?k]\<rparr>)"
    then obtain obj where ne: "\<not> file_exists e ?k st"
      and st': "st' = st\<lparr>r2_bucket := (r2_bucket st)(?k \<mapsto> obj),
                          r2_uploads := r2_uploads st @ [?k]\<rparr>"
      by blast
    from ne assms(1) have none: "r2_bucket st ?k = None"
      unfolding file_exists_def by blast
    with assms(2) have "?k \<notin> set (r2_uploads st)"
      by (auto simp: uploads_ok_def list_all_iff)
    with assms(2) st' show ?thesis
      by (auto simp: uploads_ok_def list_all_iff)
  qed
qed

lemma logos_loop_keeps_uploads_ok:
  assumes "\<forall>k. head_object_ok e k"
  shows "uploads_ok st \<Longrightarrow> uploads_ok (snd (logos_loop e ts uploaded st))"
proof (induction ts arbitrary: uploaded st)
  case Nil
  then show ?case by simp
next
  case (Cons team rest)
  obtain r st' where u: "upload_team_logo e (fst team) (snd (snd team)) st = (r, st')"
    by (cases "upload_team_logo e (fst team) (snd (snd team)) st")
  have ok': "uploads_ok st'"
    using assms Cons.prems u by (rule upload_team_logo_keeps_uploads_ok)
  show ?case
  proof (cases r)
    case (Inl err)
    with u Cons.IH [OF ok', of uploaded] show ?thesis by simp
  next
    case (Inr r2_url)
    let ?st2 = "st'\<lparr>db_teams := update_logo_url r2_url (fst team) (db_teams st')\<rparr>"
    from ok' have "uploads_ok ?st2" by (simp add: uploads_ok_def)
    from Cons.IH [OF this, of "Suc uploaded"] u Inr show ?thesis by simp
  qed
qed

lemma sync_team_logos_keeps_uploads_ok:
  assumes "\<forall>k. head_object_ok e k" and "uploads_ok st"
  shows "uploads_ok (snd (sync_team_logos e limit st))"
proof (cases "teams_without_r2_logo limit (db_teams st)")
  case (Inl err)
  with assms(2) show ?thesis by (simp add: sync_team_logos_def)
next
  case (Inr ts)
  from logos_loop_keeps_uploads_ok [OF assms, of ts 0]
  have "uploads_ok (snd (logos_loop e ts 0 st))" .
  with Inr show ?thesis by (auto simp: sync_team_logos_def split: prod.splits)
qed

lemma upload_team_logo_existing:
  assumes "head_object_ok e (''teams/'' @ team_id @ ''.png'')"
    and "r2_bucket st (''teams/'' @ team_id @ ''.png'') \<noteq> None"
  shows "upload_team_logo e team_id logo_url st =
           (Inr (public_url e @ ''/'' @ ''teams/'' @ team_id @ ''.png''), st)"
  using assms by (simp add: upload_team_logo_def file_exists_def get_public_url_def)

text \<open>
  Claim C8. Two runs of \<^verbatim>\<open>sync_team_logos\<close> in succession, in surroundings where the
  bucket answers every existence check, store no key twice: the log of \<^verbatim>\<open>put_object\<close>
  over both runs has no repetition (a team's key is \<^verbatim>\<open>teams/<id>.png\<close>, so no team's
  asset is uploaded more than once). And for a key that is in the bucket,
  \<^verbatim>\<open>upload_team_logo\<close> downloads and stores nothing and still returns the owned
  public URL.
\<close>

theorem sync_team_logos_twice_uploads_once:
  assumes "\<forall>k. head_object_ok e1 k" and "\<forall>k. head_object_ok e2 k"
    and "r2_uploads st = []"
  shows "distinct (r2_uploads (snd (sync_team_logos e2 limit2 (snd (sync_team_logos e1 limit1 st))))) \<and>
         (\<forall>team_id logo_url st'.
            r2_bucket st' (''teams/'' @ team_id @ ''.png'') \<noteq> None \<longrightarrow>
            upload_team_logo e2 team_id logo_url st' =
              (Inr (public_url e2 @ ''/'' @ ''teams/'' @ team_id @ ''.png''), st'))"
proof -
  have "uploads_ok st" using assms(3) by (simp add: uploads_ok_def)
  with assms(1) have "uploads_ok (snd (sync_team_logos e1 limit1 st))"
    by (rule sync_team_logos_keeps_uploads_ok)
  with assms(2)
  have "uploads_ok (snd (sync_team_logos e2 limit2 (snd (sync_team_logos e1 limit1 st))))"
    by (rule sync_team_logos_keeps_uploads_ok)
  then have "distinct (r2_uploads (snd (sync_team_logos e2 limit2 (snd (sync_team_logos e1 limit1 st)))))"
    by (simp add: uploads_ok_def)
  moreover have "upload_team_logo e2 team_id logo_url st' =
              (Inr (public_url e2 @ ''/'' @ ''teams/'' @ team_id @ ''.png''), st')"
    if "r2_bucket st' (''teams/'' @ team_id @ ''.png'') \<noteq> None" for team_id logo_url st'
    using assms(2) that by (simp add: upload_team_logo_existing)
  ultimately show ?thesis by blast
qed

theorem sync_team_logos_twice_uploads_once_witness:
  "(\<forall>k. head_object_ok example_env k) \<and>
   r2_uploads backfill_store = [] \<and>
   distinct (r2_uploads (snd (sync_team_logos example_env 50
                           (snd (sync_team_logos example_env 2 backfill_store))))) \<and>
   r2_uploads (snd (sync_team_logos example_env 50
                           (snd (sync_team_logos example_env 2 backfill_store)))) =
     [''teams/34.png'', ''teams/40.png''] \<and>
   upload_team_logo example_env ''33'' ''https://media.api-sports.io/football/teams/33.png''
       backfill_store =
     (Inr ''https://cdn.golex.app/teams/33.png'', backfill_store)"
proof -
  have h1: "\<forall>k. head_object_ok example_env k" by (simp add: example_env_def)
  have h2: "r2_uploads backfill_store = []" by (simp add: backfill_store_def empty_store_def)
  have h3: "r2_bucket backfill_store (''teams/'' @ ''33'' @ ''.png'') \<noteq> None"
    by (simp add: backfill_store_def)
  have ev: "r2_uploads (snd (sync_team_logos example_env 50
                           (snd (sync_team_logos example_env 2 backfill_store)))) =
     [''teams/34.png'', ''teams/40.png'']"
    by code_simp
  have url: "public_url example_env @ ''/'' @ ''teams/'' @ ''33'' @ ''.png'' =
     ''https://cdn.golex.app/teams/33.png''"
    by (simp add: example_env_def)
  from sync_team_logos_twice_uploads_once [OF h1 h1 h2, of 50 2]
  have d: "distinct (r2_uploads (snd (sync_team_logos example_env 50
                           (snd (sync_team_logos example_env 2 backfill_store)))))"
    and u: "\<forall>team_id logo_url st'.
            r2_bucket st' (''teams/'' @ team_id @ ''.png'') \<noteq> None \<longrightarrow>
            upload_team_logo example_env team_id logo_url st' =
              (Inr (public_url example_env @ ''/'' @ ''teams/'' @ team_id @ ''.png''), st')"
    by blast+
  from u h3 have "upload_team_logo example_env ''33''
       ''https://media.api-sports.io/football/teams/33.png'' backfill_store =
     (Inr (public_url example_env @ ''/'' @ ''teams/'' @ ''33'' @ ''.png''), backfill_store)"
    by blast
  with url have "upload_team_logo example_env ''33''
       ''https://media.api-sports.io/football/teams/33.png'' backfill_store =
     (Inr ''https://cdn.golex.app/teams/33.png'', backfill_store)"
    by simp
  with h1 h2 d ev show ?thesis by blast
qed

end
